theory Spec2Isabelle
  imports Complex_Main
begin

section \<open>Freight quotation: the pricing engine of calculator.py\<close>

text \<open>
  The theory embeds the class \<open>ShippingCalculator\<close> of \<open>calculator.py\<close> and the
  request handler of \<open>app.py\<close>.

  Conventions of the embedding.
  \<^item> For the pricing formulas, Python numbers (\<open>int\<close> and \<open>float\<close>) are real numbers:
    binary rounding error, overflow to infinity and NaN are not represented there.
    For the failures of the code, the numbers are unbounded integers and floats with
    infinities and NaN (the subsection on Python's numbers and the one after it).
  \<^item> A Python \<open>str\<close> is the list of its code points.
  \<^item> A dictionary is a partial map; a key of the configuration dictionary that may
    be missing is an optional record field.
  \<^item> An exception is a value of type \<open>exn\<close>; a function that may raise returns
    \<open>exn + 'a\<close>.
\<close>

subsection \<open>Values and exceptions\<close>

type_synonym pystr = "nat list"

definition cps :: "string \<Rightarrow> pystr" where
  "cps s = map of_char s"

datatype exn =
    ValueError
  | TypeError
  | KeyError pystr
  | IndexError
  | AttributeError
  | OverflowError

subsection \<open>The embedded configuration\<close>

type_synonym bands = "(real \<times> real) list"

record config =
  km_coefficients :: "bands option"
  zone_coefficients :: "(pystr \<rightharpoonup> real) option"
  goods_coefficients :: "(pystr \<rightharpoonup> real) option"
  vehicle_coefficients :: "(pystr \<rightharpoonup> real) option"
  size_coefficients :: "bands option"
  constants :: "(pystr \<rightharpoonup> real) option"

text \<open>\<open>self.config[key]\<close>: a missing key raises \<open>KeyError\<close>.\<close>

definition getitem :: "'a option \<Rightarrow> string \<Rightarrow> exn + 'a" where
  "getitem field key = (case field of None \<Rightarrow> Inl (KeyError (cps key)) | Some v \<Rightarrow> Inr v)"

subsection \<open>Band lookup\<close>

text \<open>
  The loop shared by \<open>get_km_coefficient\<close> and \<open>get_size_coefficient\<close>:
  \<^verbatim>\<open>
  for threshold, coef in coeffs:
      if value >= threshold: result = coef
      else: break
  \<close>
\<close>

fun band_loop :: "real \<Rightarrow> bands \<Rightarrow> real \<Rightarrow> real" where
  "band_loop v [] acc = acc"
| "band_loop v ((threshold, coef) # rest) acc =
     (if v \<ge> threshold then band_loop v rest coef else acc)"

text \<open>
  \<open>coeffs = sorted(table, key=lambda x: x[0])\<close>, \<open>coeffs[0][1]\<close> (an empty table raises
  \<open>IndexError\<close>), then the loop.
\<close>

definition band_lookup :: "bands \<Rightarrow> real \<Rightarrow> exn + real" where
  "band_lookup table v =
     (let coeffs = sort_key fst table in
      case coeffs of
        [] \<Rightarrow> Inl IndexError
      | (t0, c0) # _ \<Rightarrow> Inr (band_loop v coeffs c0))"

definition get_km_coefficient :: "config \<Rightarrow> real \<Rightarrow> exn + real" where
  "get_km_coefficient cfg distance =
     (case getitem (km_coefficients cfg) ''km_coefficients'' of
        Inl e \<Rightarrow> Inl e
      | Inr table \<Rightarrow> band_lookup table distance)"

text \<open>
  The class attribute \<open>DEFAULT_CONFIG\<close>; \<open>__init__\<close> sets \<open>self.config\<close> to it. A code
  point outside printable ASCII is written as its number (249 is u with grave, and so on).
  The entry \<open>zone_mapping\<close> is read by \<open>get_zone_name_from_loc\<close> only and is left out.
\<close>

definition DEFAULT_CONFIG :: config where
  "DEFAULT_CONFIG = \<lparr>
     km_coefficients = Some
       [(0, 0.35), (50, 0.35), (100, 0.4), (150, 0.45), (200, 0.5), (250, 0.55),
        (300, 0.6), (350, 0.65), (400, 0.7), (450, 0.75), (500, 0.8), (550, 0.825),
        (600, 0.85), (650, 0.875), (700, 0.9), (750, 0.925), (800, 0.95), (850, 0.975),
        (900, 1.0), (950, 1.025), (1000, 1.05), (1100, 1.075), (1200, 1.1), (1300, 1.125),
        (1400, 1.15), (1500, 1.175), (1600, 1.2), (1700, 1.225), (1800, 1.25), (1900, 1.275),
        (2000, 1.3), (2100, 1.325), (2200, 1.35), (2300, 1.375), (2400, 1.4), (2500, 1.6)],
     zone_coefficients = Some (map_of
       [(cps ''V'' @ [249] @ cps ''ng 1'', 1.4),
        (cps ''V'' @ [249] @ cps ''ng 5'', 1.3),
        (cps ''V'' @ [249] @ cps ''ng c'' @ [242] @ cps ''n l'' @ [7841] @ cps ''i'', 1.0),
        (cps ''V'' @ [249] @ cps ''ng huy'' @ [7879] @ cps ''n '' @ [273] @ [7843] @ cps ''o'', 1.5)]),
     goods_coefficients = Some (map_of
       [(cps ''H'' @ [224] @ cps ''ng tr'' @ [7847] @ cps ''n VLXD'', 0.8),
        (cps ''H'' @ [224] @ cps ''ng d'' @ [7877] @ cps '' v'' @ [7905], 1.5),
        (cps ''H'' @ [224] @ cps ''ng ti'' @ [234] @ cps ''u d'' @ [249] @ cps ''ng'', 1.0),
        (cps ''H'' @ [224] @ cps ''ng '' @ [273] @ [244] @ cps ''ng l'' @ [7841] @ cps ''nh'', 1.5),
        (cps ''H'' @ [224] @ cps ''ng h'' @ [243] @ cps ''a ch'' @ [7845] @ cps ''t'', 1.5),
        (cps ''H'' @ [224] @ cps ''ng '' @ [273] @ [243] @ cps ''ng h'' @ [7897] @ cps ''p ti'' @ [234]
           @ cps ''u d'' @ [249] @ cps ''ng'', 1.0),
        (cps ''L'' @ [250] @ cps ''a th'' @ [243] @ cps ''c'', 0.65)]),
     vehicle_coefficients = Some (map_of
       [(cps ''T'' @ [7843] @ cps ''i'', 1.0),
        ([272] @ [7847] @ cps ''u k'' @ [233] @ cps ''o'', 1.25),
        (cps ''Mooc s'' @ [224] @ cps ''n'', 1.5),
        (cps ''Fooc'', 2.25)]),
     size_coefficients = Some
       [(0, 1.0), (200, 1.2), (300, 1.3), (400, 1.4), (600, 1.5), (800, 1.8), (1100, 2.0)],
     constants = Some (map_of
       [(cps ''full_vehicle_rate'', 4076.05),
        (cps ''delivery_vinh_base'', 5445000),
        (cps ''delivery_vinh_rate'', 0.18),
        (cps ''vol_weight_factor'', 6000)]) \<rparr>"

subsection \<open>Dynamically typed arguments and the builtins applied to them\<close>

text \<open>
  An argument of \<open>calculate_shipping_rate\<close> is \<open>None\<close>, a number or a string. On a
  number that is a real, \<open>float\<close>, \<open>int\<close> and \<open>round\<close> do not fail; their failures on
  infinities, NaN and large integers are those of \<open>float_num\<close>, \<open>int_num\<close> and
  \<open>round_num\<close> below.
\<close>

datatype pyval = PNone | PNum real | PStr pystr

text \<open>
  What \<open>float(s)\<close> and \<open>int(s)\<close> return on a string is the interpreter's business, not
  the repository's: it is a parameter, \<open>None\<close> where the builtin raises \<open>ValueError\<close>.
\<close>

record builtins =
  float_str :: "pystr \<Rightarrow> real option"
  int_str :: "pystr \<Rightarrow> int option"

definition py_float :: "builtins \<Rightarrow> pyval \<Rightarrow> exn + real" where
  "py_float B v =
     (case v of
        PNone \<Rightarrow> Inl TypeError
      | PNum r \<Rightarrow> Inr r
      | PStr s \<Rightarrow> (case float_str B s of None \<Rightarrow> Inl ValueError | Some r \<Rightarrow> Inr r))"

text \<open>\<open>int(x)\<close> of a number truncates towards zero.\<close>

definition py_int :: "builtins \<Rightarrow> pyval \<Rightarrow> exn + int" where
  "py_int B v =
     (case v of
        PNone \<Rightarrow> Inl TypeError
      | PNum r \<Rightarrow> Inr (if r \<ge> 0 then \<lfloor>r\<rfloor> else \<lceil>r\<rceil>)
      | PStr s \<Rightarrow> (case int_str B s of None \<Rightarrow> Inl ValueError | Some n \<Rightarrow> Inr n))"

text \<open>Truth value of an object, and \<open>x or 0\<close>.\<close>

definition truthy :: "pyval \<Rightarrow> bool" where
  "truthy v = (case v of PNone \<Rightarrow> False | PNum r \<Rightarrow> r \<noteq> 0 | PStr s \<Rightarrow> s \<noteq> [])"

definition or0 :: "pyval \<Rightarrow> pyval" where
  "or0 v = (if truthy v then v else PNum 0)"

text \<open>Strings compare by code point, lexicographically.\<close>

fun str_gt :: "pystr \<Rightarrow> pystr \<Rightarrow> bool" where
  "str_gt [] ys = False"
| "str_gt (x # xs) [] = True"
| "str_gt (x # xs) (y # ys) = (x > y \<or> (x = y \<and> str_gt xs ys))"

text \<open>\<open>a > b\<close>: a number and a string, or \<open>None\<close> and anything, do not compare.\<close>

definition py_gt :: "pyval \<Rightarrow> pyval \<Rightarrow> exn + bool" where
  "py_gt a b =
     (case (a, b) of
        (PNum x, PNum y) \<Rightarrow> Inr (x > y)
      | (PStr s, PStr t) \<Rightarrow> Inr (str_gt s t)
      | _ \<Rightarrow> Inl TypeError)"

text \<open>\<open>max(xs)\<close> on a list: the first element, replaced by each later one that is greater.\<close>

fun max_loop :: "pyval \<Rightarrow> pyval list \<Rightarrow> exn + pyval" where
  "max_loop m [] = Inr m"
| "max_loop m (x # xs) =
     (case py_gt x m of
        Inl e \<Rightarrow> Inl e
      | Inr b \<Rightarrow> max_loop (if b then x else m) xs)"

definition py_max :: "pyval list \<Rightarrow> exn + pyval" where
  "py_max xs = (case xs of [] \<Rightarrow> Inl ValueError | x # rest \<Rightarrow> max_loop x rest)"

text \<open>\<open>round(x)\<close>: to the nearest integer, a tie to the even one.\<close>

definition py_round :: "real \<Rightarrow> int" where
  "py_round x =
     (let f = \<lfloor>x\<rfloor>; d = x - of_int f in
      if d < 1 / 2 then f
      else if d > 1 / 2 then f + 1
      else if even f then f else f + 1)"

subsection \<open>String methods\<close>

text \<open>The code points on which \<open>str.isspace\<close> holds; \<open>str.strip()\<close> removes them at both ends.\<close>

definition is_space :: "nat \<Rightarrow> bool" where
  "is_space c \<longleftrightarrow>
     (9 \<le> c \<and> c \<le> 13) \<or> (28 \<le> c \<and> c \<le> 32) \<or> c = 133 \<or> c = 160 \<or> c = 5760 \<or>
     (8192 \<le> c \<and> c \<le> 8202) \<or> c = 8232 \<or> c = 8233 \<or> c = 8239 \<or> c = 8287 \<or> c = 12288"

definition py_strip :: "pystr \<Rightarrow> pystr" where
  "py_strip s = rev (dropWhile is_space (rev (dropWhile is_space s)))"

text \<open>
  \<open>str.lower()\<close>, one code point at a time. The table is that of Unicode on Basic Latin,
  Latin-1, Latin Extended-A, the horned letters O and U and Latin Extended Additional,
  which together hold the Vietnamese alphabet; any other code point is left as it is.
\<close>

definition lower_cp :: "nat \<Rightarrow> pystr" where
  "lower_cp c =
     (if 65 \<le> c \<and> c \<le> 90 then [c + 32]
      else if (192 \<le> c \<and> c \<le> 214) \<or> (216 \<le> c \<and> c \<le> 222) then [c + 32]
      else if c = 304 then [105, 775]
      else if ((256 \<le> c \<and> c \<le> 302) \<or> (306 \<le> c \<and> c \<le> 310) \<or> (330 \<le> c \<and> c \<le> 374))
                \<and> even c then [c + 1]
      else if ((313 \<le> c \<and> c \<le> 327) \<or> (377 \<le> c \<and> c \<le> 381)) \<and> odd c then [c + 1]
      else if c = 376 then [255]
      else if c = 416 \<or> c = 431 then [c + 1]
      else if ((7680 \<le> c \<and> c \<le> 7828) \<or> (7840 \<le> c \<and> c \<le> 7934)) \<and> even c then [c + 1]
      else if c = 7838 then [223]
      else [c])"

definition py_lower :: "pystr \<Rightarrow> pystr" where
  "py_lower s = concat (map lower_cp s)"

subsection \<open>The coefficient getters\<close>

text \<open>\<open>d.get(name, 1.0)\<close> on a dictionary of the configuration.\<close>

definition get_or_one :: "(pystr \<rightharpoonup> real) \<Rightarrow> pystr \<Rightarrow> real" where
  "get_or_one d name = (case d name of None \<Rightarrow> 1.0 | Some c \<Rightarrow> c)"

definition get_zone_coefficient :: "config \<Rightarrow> pystr \<Rightarrow> exn + real" where
  "get_zone_coefficient cfg zone_name =
     (case getitem (zone_coefficients cfg) ''zone_coefficients'' of
        Inl e \<Rightarrow> Inl e
      | Inr d \<Rightarrow> Inr (get_or_one d zone_name))"

definition get_goods_coefficient :: "config \<Rightarrow> pystr \<Rightarrow> exn + real" where
  "get_goods_coefficient cfg goods_type =
     (case getitem (goods_coefficients cfg) ''goods_coefficients'' of
        Inl e \<Rightarrow> Inl e
      | Inr d \<Rightarrow> Inr (get_or_one d goods_type))"

definition get_vehicle_coefficient :: "config \<Rightarrow> pystr \<Rightarrow> exn + real" where
  "get_vehicle_coefficient cfg vehicle_type =
     (case getitem (vehicle_coefficients cfg) ''vehicle_coefficients'' of
        Inl e \<Rightarrow> Inl e
      | Inr d \<Rightarrow> Inr (get_or_one d vehicle_type))"

text \<open>
  \<open>get_size_coefficient\<close>: \<open>max_dim = max_dimension or 0\<close>, the table is fetched and sorted,
  \<open>coeffs[0][1]\<close> is read, and the loop compares \<open>max_dim >= size_threshold\<close>; a string
  there raises \<open>TypeError\<close> at the first band.
\<close>

definition get_size_coefficient :: "config \<Rightarrow> pyval \<Rightarrow> exn + real" where
  "get_size_coefficient cfg max_dimension =
     (let max_dim = or0 max_dimension in
      case getitem (size_coefficients cfg) ''size_coefficients'' of
        Inl e \<Rightarrow> Inl e
      | Inr table \<Rightarrow>
          (case max_dim of
             PNum v \<Rightarrow> band_lookup table v
           | _ \<Rightarrow> (case sort_key fst table of [] \<Rightarrow> Inl IndexError | _ # _ \<Rightarrow> Inl TypeError)))"

definition get_base_rate :: "real \<Rightarrow> real" where
  "get_base_rate chargeable_weight_kg =
     (if chargeable_weight_kg < 1000 then 5230.78
      else if 1000 \<le> chargeable_weight_kg \<and> chargeable_weight_kg < 3000 then 3130.78
      else if 3000 \<le> chargeable_weight_kg \<and> chargeable_weight_kg < 10000 then 2180.78
      else 1200.78)"

text \<open>
  \<open>calculate_weight_from_dimensions\<close>: 0 when a dimension is \<open>None\<close>; a \<open>ValueError\<close> or
  \<open>TypeError\<close> of the conversions is caught and gives 0 as well.
\<close>

definition calculate_weight_from_dimensions ::
  "builtins \<Rightarrow> pyval \<Rightarrow> pyval \<Rightarrow> pyval \<Rightarrow> real \<Rightarrow> real" where
  "calculate_weight_from_dimensions B len width height factor =
     (if len = PNone \<or> width = PNone \<or> height = PNone then 0
      else
        (case py_float B len of
           Inl e \<Rightarrow> 0
         | Inr l \<Rightarrow>
        (case py_float B width of
           Inl e \<Rightarrow> 0
         | Inr w \<Rightarrow>
        (case py_float B height of
           Inl e \<Rightarrow> 0
         | Inr h \<Rightarrow> (l * w * h) / (if factor \<le> 0 then 6000 else factor)))))"

subsection \<open>calculate_shipping_rate\<close>

text \<open>The keyword arguments of \<open>calculate_shipping_rate\<close>.\<close>

record request =
  distance_km :: pyval
  actual_weight_kg :: pyval
  quantity :: pyval
  vol_length_cm :: pyval
  vol_width_cm :: pyval
  vol_height_cm :: pyval
  pickup_zone_name :: pystr
  delivery_zone_name :: pystr
  delivery_point :: pyval
  goods_type :: pystr
  vehicle_type :: pystr
  proposed_coefficient :: pyval

text \<open>The dictionary stored under \<open>results['coefficients']\<close>.\<close>

record coefs =
  coef_km :: real
  coef_zone :: real
  coef_goods :: real
  coef_vehicle :: real
  coef_size :: real
  coef_proposed :: real

text \<open>
  The three messages of the \<open>except\<close> clauses: the prefix of each f-string is a
  constructor, the formatted exception (or the missing key) its argument.
\<close>

datatype error_descriptor =
    InputValueError exn
  | ConfigMissingKey pystr
  | SystemFailure exn

text \<open>
  The dictionary \<open>results\<close>: a key that has not been assigned yet is \<open>None\<close> here; the key
  \<open>error\<close> is always there, \<open>None\<close> standing for Python's \<open>None\<close>.
\<close>

record results =
  error :: "error_descriptor option"
  chargeable_weight :: "real option"
  volumetric_weight :: "real option"
  actual_weight :: "real option"
  coefficients :: "coefs option"
  base_freight :: "real option"
  delivery_fee :: "real option"
  total_cost :: "real option"
  shared_vehicle_cost :: "real option"
  full_vehicle_cost :: "real option"
  customer_price :: "real option"

definition initial_results :: results where
  "initial_results = \<lparr> error = None, chargeable_weight = None, volumetric_weight = None,
     actual_weight = None, coefficients = None, base_freight = None, delivery_fee = None,
     total_cost = None, shared_vehicle_cost = None, full_vehicle_cost = None,
     customer_price = None \<rparr>"

text \<open>\<open>self.config["constants"][key]\<close>.\<close>

definition config_constant :: "config \<Rightarrow> string \<Rightarrow> exn + real" where
  "config_constant cfg key =
     (case getitem (constants cfg) ''constants'' of
        Inl e \<Rightarrow> Inl e
      | Inr d \<Rightarrow> (case d (cps key) of None \<Rightarrow> Inl (KeyError (cps key)) | Some v \<Rightarrow> Inr v))"

text \<open>
  Lines 173 to 185: the conversions, the volumetric weight and the chargeable weight.
  The result is (distance, proposed_coef, chargeable_weight, vol_weight_total,
  actual_weight_total).
\<close>

definition weigh :: "builtins \<Rightarrow> config \<Rightarrow> request \<Rightarrow> exn + (real \<times> real \<times> real \<times> real \<times> real)" where
  "weigh B cfg rq =
     (case py_float B (distance_km rq) of
        Inl e \<Rightarrow> Inl e
      | Inr distance \<Rightarrow>
     (case (if actual_weight_kg rq \<noteq> PNone then py_float B (actual_weight_kg rq) else Inr 0) of
        Inl e \<Rightarrow> Inl e
      | Inr weight \<Rightarrow>
     (case (if quantity rq \<noteq> PNone then py_int B (quantity rq) else Inr 1) of
        Inl e \<Rightarrow> Inl e
      | Inr qty \<Rightarrow>
     (case (if proposed_coefficient rq \<noteq> PNone then py_float B (proposed_coefficient rq)
            else Inr 1.0) of
        Inl e \<Rightarrow> Inl e
      | Inr proposed_coef \<Rightarrow>
     (case config_constant cfg ''vol_weight_factor'' of
        Inl e \<Rightarrow> Inl e
      | Inr factor \<Rightarrow>
          (let vol_weight = calculate_weight_from_dimensions B
                 (vol_length_cm rq) (vol_width_cm rq) (vol_height_cm rq) factor;
               vol_weight_total = vol_weight * of_int qty;
               actual_weight_total = weight * of_int qty;
               cw = (if vol_weight_total > 0 then max actual_weight_total vol_weight_total
                     else actual_weight_total);
               cw = (if cw \<le> 0 then 1 else cw)
           in Inr (distance, proposed_coef, cw, vol_weight_total, actual_weight_total)))))))"

text \<open>Lines 192 to 207: the six coefficients, in the order the source fetches them.\<close>

definition resolve_coefficients :: "config \<Rightarrow> request \<Rightarrow> real \<Rightarrow> real \<Rightarrow> exn + coefs" where
  "resolve_coefficients cfg rq distance proposed_coef =
     (case get_km_coefficient cfg distance of
        Inl e \<Rightarrow> Inl e
      | Inr km_coef \<Rightarrow>
     (case get_zone_coefficient cfg (pickup_zone_name rq) of
        Inl e \<Rightarrow> Inl e
      | Inr pickup_zone_coef \<Rightarrow>
     (case get_zone_coefficient cfg (delivery_zone_name rq) of
        Inl e \<Rightarrow> Inl e
      | Inr delivery_zone_coef \<Rightarrow>
     (case get_goods_coefficient cfg (goods_type rq) of
        Inl e \<Rightarrow> Inl e
      | Inr goods_coef \<Rightarrow>
     (case get_vehicle_coefficient cfg (vehicle_type rq) of
        Inl e \<Rightarrow> Inl e
      | Inr vehicle_coef \<Rightarrow>
     (case py_max [or0 (vol_length_cm rq), or0 (vol_width_cm rq), or0 (vol_height_cm rq)] of
        Inl e \<Rightarrow> Inl e
      | Inr max_dimension \<Rightarrow>
     (case get_size_coefficient cfg max_dimension of
        Inl e \<Rightarrow> Inl e
      | Inr size_coef \<Rightarrow>
          Inr \<lparr> coef_km = km_coef, coef_zone = max pickup_zone_coef delivery_zone_coef,
                coef_goods = goods_coef, coef_vehicle = vehicle_coef, coef_size = size_coef,
                coef_proposed = proposed_coef \<rparr>)))))))"

text \<open>
  Lines 217 to 219. \<open>delivery_point.lower()\<close> on a number raises \<open>AttributeError\<close>; the
  test \<open>delivery_point and ...\<close> does not reach it for a false value.
\<close>

definition delivery_fee_of :: "config \<Rightarrow> pyval \<Rightarrow> exn + real" where
  "delivery_fee_of cfg dp =
     (if \<not> truthy dp then Inr 0
      else case dp of
        PStr s \<Rightarrow>
          (if py_strip (py_lower s) = cps ''tp vinh'' then
             (case config_constant cfg ''delivery_vinh_base'' of
                Inl e \<Rightarrow> Inl e
              | Inr base \<Rightarrow>
             (case config_constant cfg ''delivery_vinh_rate'' of
                Inl e \<Rightarrow> Inl e
              | Inr rate \<Rightarrow> Inr (base * rate)))
           else Inr 0)
      | _ \<Rightarrow> Inl AttributeError)"

text \<open>
  The \<open>except\<close> clauses, in their order: \<open>(ValueError, TypeError)\<close>, \<open>KeyError\<close>, then
  \<open>Exception\<close>. Each stores a message under \<open>error\<close> and leaves the rest of \<open>results\<close> as
  the \<open>try\<close> block left it.
\<close>

definition describe :: "exn \<Rightarrow> error_descriptor" where
  "describe e =
     (case e of
        ValueError \<Rightarrow> InputValueError e
      | TypeError \<Rightarrow> InputValueError e
      | KeyError k \<Rightarrow> ConfigMissingKey k
      | _ \<Rightarrow> SystemFailure e)"

definition caught :: "exn \<Rightarrow> results \<Rightarrow> results" where
  "caught e res = res\<lparr> error := Some (describe e) \<rparr>"

text \<open>Lines 239 and 240: \<open>round\<close> on the six monetary keys.\<close>

definition rounded :: "real \<Rightarrow> real" where
  "rounded x = of_int (py_round x)"

definition round_money :: "results \<Rightarrow> results" where
  "round_money res = res\<lparr>
     base_freight := map_option rounded (base_freight res),
     delivery_fee := map_option rounded (delivery_fee res),
     total_cost := map_option rounded (total_cost res),
     shared_vehicle_cost := map_option rounded (shared_vehicle_cost res),
     full_vehicle_cost := map_option rounded (full_vehicle_cost res),
     customer_price := map_option rounded (customer_price res) \<rparr>"

definition calculate_shipping_rate :: "builtins \<Rightarrow> config \<Rightarrow> request \<Rightarrow> results" where
  "calculate_shipping_rate B cfg rq =
     (let res = initial_results in
      case weigh B cfg rq of
        Inl e \<Rightarrow> caught e res
      | Inr (distance, proposed_coef, cw, vol_weight_total, actual_weight_total) \<Rightarrow>
     (let res = res\<lparr> chargeable_weight := Some cw,
                       volumetric_weight := Some vol_weight_total,
                       actual_weight := Some actual_weight_total \<rparr> in
      case resolve_coefficients cfg rq distance proposed_coef of
        Inl e \<Rightarrow> caught e res
      | Inr c \<Rightarrow>
     (let res = res\<lparr> coefficients := Some c \<rparr>;
          base_rate = get_base_rate cw;
          freight = cw * coef_km c * coef_zone c * coef_goods c * coef_size c * coef_proposed c
                      * base_rate;
          res = res\<lparr> base_freight := Some freight \<rparr> in
      case delivery_fee_of cfg (delivery_point rq) of
        Inl e \<Rightarrow> caught e res
      | Inr fee \<Rightarrow>
     (let res = res\<lparr> delivery_fee := Some fee \<rparr>;
          total = freight + fee;
          res = res\<lparr> total_cost := Some total \<rparr>;
          res = res\<lparr> shared_vehicle_cost := Some (freight * 0.9) \<rparr> in
      case config_constant cfg ''full_vehicle_rate'' of
        Inl e \<Rightarrow> caught e res
      | Inr full_vehicle_rate \<Rightarrow>
     (let res = res\<lparr> full_vehicle_cost :=
                  Some (cw * coef_km c * coef_zone c * coef_goods c * coef_vehicle c
                          * coef_proposed c * full_vehicle_rate) \<rparr>;
          res = res\<lparr> customer_price := Some total \<rparr>
      in round_money res)))))"

text \<open>
  A call with typed arguments, as the form of the desktop client and \<open>process_query\<close>
  make it: numbers for distance, weight, quantity and multiplier, each dimension a
  number or \<open>None\<close>, the delivery point a string.
\<close>

record shipment =
  s_distance :: real
  s_weight :: real
  s_quantity :: int
  s_length :: "real option"
  s_width :: "real option"
  s_height :: "real option"
  s_pickup_zone :: pystr
  s_delivery_zone :: pystr
  s_delivery_point :: pystr
  s_goods :: pystr
  s_vehicle :: pystr
  s_proposed :: real

definition dim :: "real option \<Rightarrow> pyval" where
  "dim d = (case d of None \<Rightarrow> PNone | Some x \<Rightarrow> PNum x)"

definition as_request :: "shipment \<Rightarrow> request" where
  "as_request s = \<lparr>
     distance_km = PNum (s_distance s),
     actual_weight_kg = PNum (s_weight s),
     quantity = PNum (of_int (s_quantity s)),
     vol_length_cm = dim (s_length s),
     vol_width_cm = dim (s_width s),
     vol_height_cm = dim (s_height s),
     pickup_zone_name = s_pickup_zone s,
     delivery_zone_name = s_delivery_zone s,
     delivery_point = PStr (s_delivery_point s),
     goods_type = s_goods s,
     vehicle_type = s_vehicle s,
     proposed_coefficient = PNum (s_proposed s) \<rparr>"

subsection \<open>The lookup contract of the specification\<close>

text \<open>
  The specification's \<open>coefficientForThreshold\<close>, in its own words: the coefficient of the
  highest band whose threshold is at most the value, and the lowest band's coefficient
  when the value is below every threshold.
\<close>

definition coefficient_for_threshold :: "bands \<Rightarrow> real \<Rightarrow> real" where
  "coefficient_for_threshold table v =
     (let below = filter (\<lambda>b. fst b \<le> v) table in
      if below = [] then snd (hd table) else snd (last below))"

subsection \<open>Typed calls and the example of the specification\<close>

text \<open>A dimension that is \<open>None\<close> counts as 0 in \<open>max([vol_length_cm or 0, ...])\<close>.\<close>

definition dim0 :: "real option \<Rightarrow> real" where
  "dim0 d = (case d of None \<Rightarrow> 0 | Some x \<Rightarrow> x)"

text \<open>
  The request of the specification's example, which is also the call with every default
  of the signature: 156 km, 1000 kg, one package, no dimensions.
\<close>

definition example_shipment :: shipment where
  "example_shipment = \<lparr>
     s_distance = 156, s_weight = 1000, s_quantity = 1,
     s_length = None, s_width = None, s_height = None,
     s_pickup_zone = cps ''V'' @ [249] @ cps ''ng c'' @ [242] @ cps ''n l'' @ [7841] @ cps ''i'',
     s_delivery_zone = cps ''V'' @ [249] @ cps ''ng c'' @ [242] @ cps ''n l'' @ [7841] @ cps ''i'',
     s_delivery_point = [],
     s_goods = cps ''H'' @ [224] @ cps ''ng '' @ [273] @ [243] @ cps ''ng h'' @ [7897] @ cps ''p ti''
                 @ [234] @ cps ''u d'' @ [249] @ cps ''ng'',
     s_vehicle = cps ''T'' @ [7843] @ cps ''i'',
     s_proposed = 1.0 \<rparr>"

text \<open>An interpreter whose \<open>float\<close> and \<open>int\<close> reject every string; the examples pass none.\<close>

definition no_parse :: builtins where
  "no_parse = \<lparr> float_str = (\<lambda>s. None), int_str = (\<lambda>s. None) \<rparr>"

text \<open>The volumetric weight of one package as the specification words it.\<close>

definition typed_volume :: "shipment \<Rightarrow> real" where
  "typed_volume s =
     (case (s_length s, s_width s, s_height s) of
        (Some l, Some w, Some h) \<Rightarrow> (l * w * h) / 6000
      | _ \<Rightarrow> 0)"

subsection \<open>A missing entry of the tariff table\<close>


subsection \<open>Regular expressions: the fragment of re that parse_user_query uses\<close>

text \<open>
  The character classes \<open>\w\<close>, \<open>\s\<close> and \<open>\d\<close> of a \<open>str\<close> pattern follow the Unicode
  database. \<open>\s\<close> is \<open>is_space\<close> above. The tables for \<open>\w\<close> (alphanumeric or the
  underscore) and \<open>\d\<close> are those of Unicode on the blocks Basic Latin to Latin
  Extended-B and Latin Extended Additional; a code point of another block counts as
  neither a word character nor a digit.
\<close>

definition is_alnum :: "nat \<Rightarrow> bool" where
  "is_alnum c \<longleftrightarrow>
     (48 \<le> c \<and> c \<le> 57) \<or> (65 \<le> c \<and> c \<le> 90) \<or> (97 \<le> c \<and> c \<le> 122) \<or> c = 170 \<or>
     c = 178 \<or> c = 179 \<or> c = 181 \<or> c = 185 \<or> c = 186 \<or> (188 \<le> c \<and> c \<le> 190) \<or>
     (192 \<le> c \<and> c \<le> 214) \<or> (216 \<le> c \<and> c \<le> 246) \<or> (248 \<le> c \<and> c \<le> 591) \<or>
     (7680 \<le> c \<and> c \<le> 7935)"

definition is_decimal :: "nat \<Rightarrow> bool" where
  "is_decimal c \<longleftrightarrow> 48 \<le> c \<and> c \<le> 57"

text \<open>
  \<open>re.IGNORECASE\<close>: a character of the pattern matches a character of the text when
  both have the same simple lower case; dotless and dotted I go with \<open>i\<close>, long s with
  \<open>s\<close>.
\<close>

definition ci_fold :: "nat \<Rightarrow> nat" where
  "ci_fold c = (if c = 304 \<or> c = 305 then 105 else if c = 383 then 115 else hd (lower_cp c))"

definition lit_match :: "bool \<Rightarrow> nat \<Rightarrow> nat \<Rightarrow> bool" where
  "lit_match ignorecase c x \<longleftrightarrow> x = c \<or> (ignorecase \<and> ci_fold x = ci_fold c)"

text \<open>The members of a bracketed class.\<close>

datatype cls = Word | Space | Digit | Ch nat

fun in_cls :: "bool \<Rightarrow> cls \<Rightarrow> nat \<Rightarrow> bool" where
  "in_cls ic Word x = (is_alnum x \<or> x = 95)"
| "in_cls ic Space x = is_space x"
| "in_cls ic Digit x = is_decimal x"
| "in_cls ic (Ch c) x = lit_match ic c x"

definition in_set :: "bool \<Rightarrow> cls list \<Rightarrow> nat \<Rightarrow> bool" where
  "in_set ic items x = list_ex (\<lambda>i. in_cls ic i x) items"

text \<open>
  The constructs of the ten patterns: literals, classes, sequence, alternation, a greedy
  optional part, repetition of a class at least \<open>least\<close> times (greedy, or lazy for
  \<open>+?\<close>), capturing groups and \<open>$\<close>.
\<close>

datatype rx =
    Eps
  | Lit nat
  | Cls "cls list"
  | Seq rx rx
  | Alt rx rx
  | Opt rx
  | Rep "cls list" nat bool
  | Grp rx
  | Eos

text \<open>
  \<open>rmatch\<close> lists the ways a pattern matches a prefix of the text, in the order in which
  the backtracking matcher tries them: for each, the captured groups and the rest of the
  text. \<open>$\<close> matches at the end of the text and before a final newline.
\<close>

fun rmatch :: "bool \<Rightarrow> rx \<Rightarrow> pystr \<Rightarrow> (pystr list \<times> pystr) list" where
  "rmatch ic Eps s = [([], s)]"
| "rmatch ic (Lit c) s =
     (case s of [] \<Rightarrow> [] | x # xs \<Rightarrow> if lit_match ic c x then [([], xs)] else [])"
| "rmatch ic (Cls items) s =
     (case s of [] \<Rightarrow> [] | x # xs \<Rightarrow> if in_set ic items x then [([], xs)] else [])"
| "rmatch ic (Seq a b) s =
     concat (map (\<lambda>p. map (\<lambda>q. (fst p @ fst q, snd q)) (rmatch ic b (snd p))) (rmatch ic a s))"
| "rmatch ic (Alt a b) s = rmatch ic a s @ rmatch ic b s"
| "rmatch ic (Opt a) s = rmatch ic a s @ [([], s)]"
| "rmatch ic (Rep items least greedy) s =
     (let most = length (takeWhile (in_set ic items) s);
          counts = (if greedy then rev [least ..< Suc most] else [least ..< Suc most])
      in map (\<lambda>k. ([], drop k s)) counts)"
| "rmatch ic (Grp a) s =
     map (\<lambda>p. (take (length s - length (snd p)) s # fst p, snd p)) (rmatch ic a s)"
| "rmatch ic Eos s = (if s = [] \<or> s = [10] then [([], s)] else [])"

text \<open>\<open>re.search\<close>: the first way to match at the leftmost position that has one.\<close>

fun re_search :: "bool \<Rightarrow> rx \<Rightarrow> pystr \<Rightarrow> pystr list option" where
  "re_search ic r s =
     (case rmatch ic r s of
        p # _ \<Rightarrow> Some (fst p)
      | [] \<Rightarrow> (case s of [] \<Rightarrow> None | _ # rest \<Rightarrow> re_search ic r rest))"

text \<open>A literal word, a sequence and an alternation of several patterns.\<close>

fun lits :: "pystr \<Rightarrow> rx" where
  "lits [] = Eps"
| "lits [c] = Lit c"
| "lits (c # cs) = Seq (Lit c) (lits cs)"

fun seqs :: "rx list \<Rightarrow> rx" where
  "seqs [] = Eps"
| "seqs [r] = r"
| "seqs (r # rs) = Seq r (seqs rs)"

fun alts :: "rx list \<Rightarrow> rx" where
  "alts [] = Eps"
| "alts [r] = r"
| "alts (r # rs) = Alt r (alts rs)"

text \<open>The number \<open>\d+(?:[.,]\d+)?\<close>.\<close>

definition num :: rx where
  "num = Seq (Rep [Digit] 1 True) (Opt (Seq (Cls [Ch 46, Ch 44]) (Rep [Digit] 1 True)))"

text \<open>The ten patterns of \<open>parse_user_query\<close>, in the order of the source.\<close>

definition from_pattern :: rx where
  "from_pattern =
     seqs [alts [lits (cps ''t'' @ [7915]), lits (cps ''ch'' @ [7903] @ cps '' t'' @ [7915]),
         lits (cps ''v'' @ [7853] @ cps ''n chuy'' @ [7875] @ cps ''n t'' @ [7915]),
         lits ([273] @ cps ''i t'' @ [7915])],
       Rep [Space] 1 True,
       Grp (Rep [Word, Space, Digit, Ch 46, Ch 44, Ch 47, Ch 45] 1 False),
       Rep [Space] 0 True,
       alts [lits ([273] @ [7871] @ cps ''n''), lits (cps ''t'' @ [7899] @ cps ''i''),
           lits (cps ''v'' @ [7873]), Eos]]"

definition to_pattern :: rx where
  "to_pattern =
     seqs [alts [lits ([273] @ [7871] @ cps ''n''), lits (cps ''t'' @ [7899] @ cps ''i''),
         lits (cps ''v'' @ [7873])],
       Rep [Space] 1 True,
       Grp (Rep [Word, Space, Digit, Ch 46, Ch 44, Ch 47, Ch 45] 1 False),
       alts [Lit 44, Lit 46, Eos, Lit 10]]"

definition delivery_pattern :: rx where
  "delivery_pattern =
     seqs [lits (cps ''giao''),
       Rep [Space] 0 True,
       Opt (alts [lits (cps ''t'' @ [7853] @ cps ''n n'' @ [417] @ cps ''i''),
           lits (cps ''t'' @ [7899] @ cps ''i'')]),
       Rep [Space] 0 True,
       Grp (Rep [Word, Space, Digit, Ch 46, Ch 44, Ch 47, Ch 45] 1 False),
       alts [Lit 44, Lit 46, Eos, Lit 10]]"

definition weight_pattern :: rx where
  "weight_pattern =
     seqs [Grp num,
       Rep [Space] 0 True,
       Grp (alts [lits (cps ''t'' @ [7845] @ cps ''n''), lits (cps ''kg''),
           lits (cps ''kilogam''), lits (cps ''kilogram''),
           lits (cps ''c'' @ [226] @ cps ''n'')])]"

definition quantity_pattern :: rx where
  "quantity_pattern =
     seqs [lits (cps ''s'' @ [7889] @ cps '' ki'' @ [7879] @ cps ''n''),
       Rep [Space] 0 True,
       Opt (Cls [Ch 58, Ch 61]),
       Rep [Space] 0 True,
       Grp (Rep [Digit] 1 True)]"

definition dim_pattern :: rx where
  "dim_pattern =
     seqs [lits (cps ''k'' @ [237] @ cps ''ch th'' @ [432] @ [7899] @ cps ''c''),
       Rep [Space] 0 True,
       Opt (Cls [Ch 58, Ch 61]),
       Rep [Space] 0 True,
       Grp num,
       Rep [Space] 0 True,
       Cls [Ch 120, Ch 42, Ch 215],
       Rep [Space] 0 True,
       Grp num,
       Rep [Space] 0 True,
       Cls [Ch 120, Ch 42, Ch 215],
       Rep [Space] 0 True,
       Grp num,
       Rep [Space] 0 True,
       Opt (Grp (alts [lits (cps ''cm''), lits (cps ''centimet'')]))]"

definition distance_pattern :: rx where
  "distance_pattern =
     seqs [Grp num,
       Rep [Space] 0 True,
       Grp (alts [lits (cps ''km''), lits (cps ''kilomet''), lits (cps ''kilometer'')])]"

definition goods_pattern :: rx where
  "goods_pattern =
     seqs [lits (cps ''lo'' @ [7841] @ cps ''i h'' @ [224] @ cps ''ng''),
       Rep [Space] 0 True,
       Opt (Cls [Ch 58, Ch 61]),
       Rep [Space] 0 True,
       Grp (Rep [Word, Space] 1 False),
       alts [Lit 44, Lit 46, Eos, Lit 10]]"

definition vehicle_pattern :: rx where
  "vehicle_pattern =
     seqs [lits (cps ''lo'' @ [7841] @ cps ''i xe''),
       Rep [Space] 0 True,
       Opt (Cls [Ch 58, Ch 61]),
       Rep [Space] 0 True,
       Grp (Rep [Word, Space] 1 False),
       alts [Lit 44, Lit 46, Eos, Lit 10]]"

definition coef_pattern :: rx where
  "coef_pattern =
     seqs [lits (cps ''h'' @ [7879] @ cps '' s'' @ [7889] @ cps '' '' @ [273] @ [7873] @ cps '' xu'' @ [7845] @ cps ''t''),
       Rep [Space] 0 True,
       Opt (Cls [Ch 58, Ch 61]),
       Rep [Space] 0 True,
       Grp num]"

text \<open>
  The request that the help text of the desktop client gives as an example: a load of
  1 ton from Nghe An to Thanh Hoa, 156km, dimensions 200x300x400, with a vehicle type
  and a proposed coefficient of 1.5.
\<close>

definition example_query :: pystr where
  "example_query =
     cps ''Ch'' @ [7903] @ cps '' 1 t'' @ [7845] @ cps ''n t'' @ [7915] @ cps '' Ngh'' @ [7879]
     @ cps '' An '' @ [273] @ [7871] @ cps ''n Thanh H'' @ [243] @ cps ''a, 156km, k'' @ [237]
     @ cps ''ch th'' @ [432] @ [7899] @ cps ''c 200x300x400, lo'' @ [7841] @ cps ''i xe: T''
     @ [7843] @ cps ''i, h'' @ [7879] @ cps '' s'' @ [7889] @ cps '' '' @ [273] @ [7873]
     @ cps '' xu'' @ [7845] @ cps ''t: 1.5''"

subsection \<open>parse_user_query\<close>

text \<open>
  \<open>float\<close> and \<open>int\<close> of a matched number: decimal digits, and at most one point after
  \<open>replace(',', '.')\<close>.
\<close>

definition digits_nat :: "pystr \<Rightarrow> nat" where
  "digits_nat ds = foldl (\<lambda>a d. 10 * a + (d - 48)) 0 ds"

definition float_of_decimal :: "pystr \<Rightarrow> real" where
  "float_of_decimal s =
     (let whole = takeWhile (\<lambda>c. c \<noteq> 46) s;
          frac = drop 1 (dropWhile (\<lambda>c. c \<noteq> 46) s)
      in real (digits_nat whole) + real (digits_nat frac) / 10 ^ length frac)"

definition comma_to_dot :: "pystr \<Rightarrow> pystr" where
  "comma_to_dot s = map (\<lambda>c. if c = 44 then 46 else c) s"

text \<open>\<open>round(x, 2)\<close>.\<close>

definition py_round2 :: "real \<Rightarrow> real" where
  "py_round2 x = of_int (py_round (x * 100)) / 100"

text \<open>
  The dictionary that \<open>parse_user_query\<close> returns; the three dimensions are the entries
  of its nested dictionary.
\<close>

record parsed_query =
  p_from_location :: "pystr option"
  p_to_location :: "pystr option"
  p_delivery_point :: "pystr option"
  p_weight :: "real option"
  p_length :: "real option"
  p_width :: "real option"
  p_height :: "real option"
  p_quantity :: int
  p_distance :: "real option"
  p_goods_type :: "pystr option"
  p_vehicle_type :: "pystr option"
  p_proposed_coefficient :: real
  p_confidence :: real

text \<open>\<open>m.group(n)\<close> of a match.\<close>

definition group :: "pystr list option \<Rightarrow> nat \<Rightarrow> pystr" where
  "group m n = (case m of None \<Rightarrow> [] | Some gs \<Rightarrow> gs ! (n - 1))"

text \<open>\<open>if m: result['confidence'] += w\<close>.\<close>

definition bump :: "pystr list option \<Rightarrow> real \<Rightarrow> real \<Rightarrow> real" where
  "bump m w conf = (if m \<noteq> None then conf + w else conf)"

definition parse_user_query :: "pystr \<Rightarrow> parsed_query" where
  "parse_user_query query =
     (let query_lower = py_lower query;
          from_match = re_search True from_pattern query;
          to_match = re_search True to_pattern query;
          delivery_match = re_search True delivery_pattern query;
          weight_match = re_search False weight_pattern query_lower;
          quantity_match = re_search True quantity_pattern query;
          dim_match = re_search True dim_pattern query;
          distance_match = re_search False distance_pattern query_lower;
          goods_match = re_search True goods_pattern query;
          vehicle_match = re_search True vehicle_pattern query;
          coef_match = re_search True coef_pattern query;
          stripped = (\<lambda>m. if m = None then None else Some (py_strip (group m 1)));
          number = (\<lambda>m n. if m = None then None
                           else Some (float_of_decimal (comma_to_dot (group m n))));
          weight_value = float_of_decimal (comma_to_dot (group weight_match 1));
          conf = 0.0;
          conf = bump from_match 0.2 conf;
          conf = bump to_match 0.2 conf;
          conf = bump delivery_match 0.1 conf;
          conf = bump weight_match 0.2 conf;
          conf = bump quantity_match 0.1 conf;
          conf = bump dim_match 0.15 conf;
          conf = bump distance_match 0.2 conf;
          conf = bump goods_match 0.1 conf;
          conf = bump vehicle_match 0.1 conf;
          conf = bump coef_match 0.1 conf
      in \<lparr> p_from_location = stripped from_match,
           p_to_location = stripped to_match,
           p_delivery_point = stripped delivery_match,
           p_weight = (if weight_match = None then None
                       else Some (if group weight_match 2 = cps ''t'' @ [7845] @ cps ''n''
                                  then weight_value * 1000 else weight_value)),
           p_length = number dim_match 1,
           p_width = number dim_match 2,
           p_height = number dim_match 3,
           p_quantity = (if quantity_match = None then 1
                         else int (digits_nat (group quantity_match 1))),
           p_distance = number distance_match 1,
           p_goods_type = stripped goods_match,
           p_vehicle_type = stripped vehicle_match,
           p_proposed_coefficient = (if coef_match = None then 1.0
                                     else float_of_decimal (comma_to_dot (group coef_match 1))),
           p_confidence = py_round2 conf \<rparr>)"

declare re_search.simps [simp del]

subsection \<open>Checking a given segmentation of a match\<close>

text \<open>
  To show that a search succeeds on a concrete text it is enough to exhibit a match:
  \<open>checks\<close> decides whether a pattern matches exactly a given segment, by a linear pass
  wherever the pattern has a fixed width.
\<close>

fun width :: "rx \<Rightarrow> nat option" where
  "width Eps = Some 0"
| "width (Lit c) = Some 1"
| "width (Cls items) = Some 1"
| "width (Seq a b) = (case (width a, width b) of (Some m, Some n) \<Rightarrow> Some (m + n) | _ \<Rightarrow> None)"
| "width (Grp a) = width a"
| "width r = None"

fun checks :: "bool \<Rightarrow> rx \<Rightarrow> pystr \<Rightarrow> bool" where
  "checks ic Eps seg = (seg = [])"
| "checks ic (Lit c) seg = (case seg of [x] \<Rightarrow> lit_match ic c x | _ \<Rightarrow> False)"
| "checks ic (Cls items) seg = (case seg of [x] \<Rightarrow> in_set ic items x | _ \<Rightarrow> False)"
| "checks ic (Seq a b) seg =
     (case width a of
        Some k \<Rightarrow> checks ic a (take k seg) \<and> checks ic b (drop k seg)
      | None \<Rightarrow> list_ex (\<lambda>k. checks ic a (take k seg) \<and> checks ic b (drop k seg))
                  [0 ..< Suc (length seg)])"
| "checks ic (Alt a b) seg = (checks ic a seg \<or> checks ic b seg)"
| "checks ic (Opt a) seg = (seg = [] \<or> checks ic a seg)"
| "checks ic (Rep items least greedy) seg = (list_all (in_set ic items) seg \<and> least \<le> length seg)"
| "checks ic (Grp a) seg = checks ic a seg"
| "checks ic Eos seg = False"

definition spans :: "bool \<Rightarrow> rx \<Rightarrow> pystr \<Rightarrow> bool" where
  "spans ic r seg \<longleftrightarrow> (\<forall>t. \<exists>g. (g, t) \<in> set (rmatch ic r (seg @ t)))"

text \<open>The increment of a field: its weight when the field was matched, else 0.\<close>

definition inc :: "bool \<Rightarrow> real \<Rightarrow> real" where
  "inc matched w = (if matched then w else 0)"

subsection \<open>Python's numbers: unbounded integers, floats with infinities and NaN\<close>

text \<open>
  The failures of \<open>float\<close>, \<open>int\<close>, \<open>round\<close> and of mixed arithmetic depend on what the
  real-valued model above leaves out: a \<open>float\<close> is a finite value, an infinity (\<open>True\<close>
  for the positive one) or NaN. A finite value is a real number whose magnitude is below
  \<open>overflow_bound\<close>, the least magnitude that rounds to infinity in binary64
  (\<open>2 ^ 1024 - 2 ^ 970\<close>); binary rounding of finite results is still not represented.
\<close>

datatype fl = Fin real | Infinity bool | NaN

definition overflow_bound :: real where
  "overflow_bound = 2 ^ 1024 - 2 ^ 970"

text \<open>
  The result of a float operation whose exact value is \<open>x\<close>: an overflow gives an
  infinity, never an exception.
\<close>

definition fl_of_real :: "real \<Rightarrow> fl" where
  "fl_of_real x = (if x \<ge> overflow_bound then Infinity True
           else if x \<le> - overflow_bound then Infinity False
           else Fin x)"

text \<open>
  \<open>*\<close>, \<open>+\<close> and \<open>/\<close> on floats, the divisor of \<open>fdiv\<close> being finite and positive (the only
  division of \<open>calculate_shipping_rate\<close>, by the volumetric factor, is of this kind).
\<close>

fun fmul :: "fl \<Rightarrow> fl \<Rightarrow> fl" where
  "fmul (Fin a) (Fin b) = fl_of_real (a * b)"
| "fmul (Infinity s) (Fin b) = (if b = 0 then NaN else Infinity (s = (b > 0)))"
| "fmul (Fin a) (Infinity t) = (if a = 0 then NaN else Infinity (t = (a > 0)))"
| "fmul (Infinity s) (Infinity t) = Infinity (s = t)"
| "fmul NaN y = NaN"
| "fmul x NaN = NaN"

fun fadd :: "fl \<Rightarrow> fl \<Rightarrow> fl" where
  "fadd (Fin a) (Fin b) = fl_of_real (a + b)"
| "fadd (Infinity s) (Fin b) = Infinity s"
| "fadd (Fin a) (Infinity t) = Infinity t"
| "fadd (Infinity s) (Infinity t) = (if s = t then Infinity s else NaN)"
| "fadd NaN y = NaN"
| "fadd x NaN = NaN"

fun fdiv :: "fl \<Rightarrow> real \<Rightarrow> fl" where
  "fdiv (Fin a) d = fl_of_real (a / d)"
| "fdiv (Infinity s) d = Infinity s"
| "fdiv NaN d = NaN"

text \<open>
\<open><\<close> and \<open><=\<close> on floats: every comparison with NaN is false.
\<close>

fun fl_lt :: "fl \<Rightarrow> fl \<Rightarrow> bool" where
  "fl_lt (Fin a) (Fin b) = (a < b)"
| "fl_lt (Fin a) (Infinity t) = t"
| "fl_lt (Infinity s) (Fin b) = (\<not> s)"
| "fl_lt (Infinity s) (Infinity t) = (\<not> s \<and> t)"
| "fl_lt NaN y = False"
| "fl_lt x NaN = False"

fun fl_le :: "fl \<Rightarrow> fl \<Rightarrow> bool" where
  "fl_le (Fin a) (Fin b) = (a \<le> b)"
| "fl_le (Fin a) (Infinity t) = t"
| "fl_le (Infinity s) (Fin b) = (\<not> s)"
| "fl_le (Infinity s) (Infinity t) = (\<not> s \<or> t)"
| "fl_le NaN y = False"
| "fl_le x NaN = False"

text \<open>
  A number is an \<open>int\<close> of any size or a \<open>float\<close>. Python compares an \<open>int\<close> with a
  \<open>float\<close> by value, without converting (\<open>as_fl\<close> is exact, it never overflows).
\<close>

datatype number = PyInt int | PyFloat fl

definition as_fl :: "number \<Rightarrow> fl" where
  "as_fl n = (case n of PyInt k \<Rightarrow> Fin (of_int k) | PyFloat x \<Rightarrow> x)"

definition num_lt :: "number \<Rightarrow> number \<Rightarrow> bool" where
  "num_lt a b = fl_lt (as_fl a) (as_fl b)"

definition num_le :: "number \<Rightarrow> number \<Rightarrow> bool" where
  "num_le a b = fl_le (as_fl a) (as_fl b)"

text \<open>
  An argument of \<open>calculate_shipping_rate\<close>: \<open>None\<close>, an \<open>int\<close>, a \<open>float\<close> or a \<open>str\<close>.
  What \<open>float(s)\<close> and \<open>int(s)\<close> return on a string is again a parameter; \<open>float(s)\<close> may
  be infinite or NaN (\<open>float('inf')\<close>, \<open>float('1e999')\<close>, \<open>float('nan')\<close>).
\<close>

datatype pv = VNone | VNum number | VStr pystr

record interp =
  float_of_str :: "pystr \<Rightarrow> fl option"
  int_of_str :: "pystr \<Rightarrow> int option"

text \<open>
  The conversion of a number to \<open>float\<close>, explicit in \<open>float(n)\<close> and implicit when an
  \<open>int\<close> meets a \<open>float\<close> in \<open>*\<close>: an \<open>int\<close> beyond the range of binary64 raises
  \<open>OverflowError\<close>.
\<close>

definition to_fl :: "number \<Rightarrow> exn + fl" where
  "to_fl n =
     (case n of
        PyInt k \<Rightarrow> if \<bar>of_int k\<bar> \<ge> overflow_bound then Inl OverflowError else Inr (Fin (of_int k))
      | PyFloat x \<Rightarrow> Inr x)"

definition float_num :: "interp \<Rightarrow> pv \<Rightarrow> exn + fl" where
  "float_num P v =
     (case v of
        VNone \<Rightarrow> Inl TypeError
      | VNum n \<Rightarrow> to_fl n
      | VStr s \<Rightarrow> (case float_of_str P s of None \<Rightarrow> Inl ValueError | Some x \<Rightarrow> Inr x))"

text \<open>
  \<open>int(v)\<close> truncates a finite float towards zero and raises \<open>OverflowError\<close> on an
  infinity, \<open>ValueError\<close> on NaN.
\<close>

definition int_num :: "interp \<Rightarrow> pv \<Rightarrow> exn + int" where
  "int_num P v =
     (case v of
        VNone \<Rightarrow> Inl TypeError
      | VNum (PyInt k) \<Rightarrow> Inr k
      | VNum (PyFloat (Fin x)) \<Rightarrow> Inr (if x \<ge> 0 then \<lfloor>x\<rfloor> else \<lceil>x\<rceil>)
      | VNum (PyFloat (Infinity s)) \<Rightarrow> Inl OverflowError
      | VNum (PyFloat NaN) \<Rightarrow> Inl ValueError
      | VStr s \<Rightarrow> (case int_of_str P s of None \<Rightarrow> Inl ValueError | Some k \<Rightarrow> Inr k))"

text \<open>
\<open>a * b\<close>: exact on two \<open>int\<close>s, otherwise both operands are converted to \<open>float\<close>.
\<close>

definition num_mul :: "number \<Rightarrow> number \<Rightarrow> exn + number" where
  "num_mul a b =
     (case (a, b) of
        (PyInt x, PyInt y) \<Rightarrow> Inr (PyInt (x * y))
      | _ \<Rightarrow>
          (case to_fl a of
             Inl e \<Rightarrow> Inl e
           | Inr x \<Rightarrow> (case to_fl b of Inl e \<Rightarrow> Inl e | Inr y \<Rightarrow> Inr (PyFloat (fmul x y)))))"

text \<open>
  \<open>round(n)\<close>: an \<open>int\<close> is returned as it is; a finite float is rounded to the nearest
  integer, a tie to the even one; an infinity raises \<open>OverflowError\<close>, NaN
  \<open>ValueError\<close>.
\<close>

definition round_num :: "number \<Rightarrow> exn + number" where
  "round_num n =
     (case n of
        PyInt k \<Rightarrow> Inr (PyInt k)
      | PyFloat (Fin x) \<Rightarrow> Inr (PyInt (py_round x))
      | PyFloat (Infinity s) \<Rightarrow> Inl OverflowError
      | PyFloat NaN \<Rightarrow> Inl ValueError)"

text \<open>
  Truthiness (NaN and the infinities are true), \<open>x or 0\<close>, \<open>a > b\<close> and \<open>max\<close> of a list,
  which keeps the first of equal maxima and raises \<open>TypeError\<close> when it compares a number
  with a string.
\<close>

definition truthy_num :: "pv \<Rightarrow> bool" where
  "truthy_num v =
     (case v of
        VNone \<Rightarrow> False
      | VNum (PyInt k) \<Rightarrow> k \<noteq> 0
      | VNum (PyFloat (Fin x)) \<Rightarrow> x \<noteq> 0
      | VNum (PyFloat y) \<Rightarrow> True
      | VStr s \<Rightarrow> s \<noteq> [])"

definition or0_num :: "pv \<Rightarrow> pv" where
  "or0_num v = (if truthy_num v then v else VNum (PyInt 0))"

definition gt_num :: "pv \<Rightarrow> pv \<Rightarrow> exn + bool" where
  "gt_num a b =
     (case (a, b) of
        (VNum x, VNum y) \<Rightarrow> Inr (num_lt y x)
      | (VStr s, VStr t) \<Rightarrow> Inr (str_gt s t)
      | _ \<Rightarrow> Inl TypeError)"

fun max_loop_num :: "pv \<Rightarrow> pv list \<Rightarrow> exn + pv" where
  "max_loop_num m [] = Inr m"
| "max_loop_num m (x # xs) =
     (case gt_num x m of
        Inl e \<Rightarrow> Inl e
      | Inr b \<Rightarrow> max_loop_num (if b then x else m) xs)"

definition max_num :: "pv list \<Rightarrow> exn + pv" where
  "max_num xs = (case xs of [] \<Rightarrow> Inl ValueError | x # rest \<Rightarrow> max_loop_num x rest)"

subsection \<open>calculate_shipping_rate on Python's numbers\<close>

text \<open>
  The functions of the class once more, on the numbers of the previous subsection; the
  configuration is the record above, its numbers finite and within the range of a
  float. A name with the suffix \<open>_num\<close> is the function of the same name without it.

  Lines 90 to 99 and 113 to 123: the band lookup. \<open>value >= threshold\<close> is false on NaN,
  so the loop breaks at the first band; in \<open>get_size_coefficient\<close> a string compared with a
  threshold raises \<open>TypeError\<close>, after \<open>coeffs[0][1]\<close> has raised \<open>IndexError\<close> on an empty
  table.
\<close>

fun band_loop_num :: "number \<Rightarrow> bands \<Rightarrow> real \<Rightarrow> real" where
  "band_loop_num v [] acc = acc"
| "band_loop_num v ((threshold, coef) # rest) acc =
     (if num_le (PyFloat (Fin threshold)) v then band_loop_num v rest coef else acc)"

definition band_lookup_num :: "bands \<Rightarrow> number \<Rightarrow> exn + real" where
  "band_lookup_num table v =
     (let coeffs = sort_key fst table in
      case coeffs of
        [] \<Rightarrow> Inl IndexError
      | (t0, c0) # _ \<Rightarrow> Inr (band_loop_num v coeffs c0))"

definition get_km_coefficient_num :: "config \<Rightarrow> fl \<Rightarrow> exn + real" where
  "get_km_coefficient_num cfg distance =
     (case getitem (km_coefficients cfg) ''km_coefficients'' of
        Inl e \<Rightarrow> Inl e
      | Inr table \<Rightarrow> band_lookup_num table (PyFloat distance))"

definition get_size_coefficient_num :: "config \<Rightarrow> pv \<Rightarrow> exn + real" where
  "get_size_coefficient_num cfg max_dimension =
     (let max_dim = or0_num max_dimension in
      case getitem (size_coefficients cfg) ''size_coefficients'' of
        Inl e \<Rightarrow> Inl e
      | Inr table \<Rightarrow>
          (case max_dim of
             VNum n \<Rightarrow> band_lookup_num table n
           | _ \<Rightarrow> (case sort_key fst table of [] \<Rightarrow> Inl IndexError | _ # _ \<Rightarrow> Inl TypeError)))"

text \<open>
Lines 125 to 134; on NaN every comparison fails and the last rate applies.
\<close>

definition get_base_rate_num :: "number \<Rightarrow> real" where
  "get_base_rate_num chargeable_weight_kg =
     (if num_lt chargeable_weight_kg (PyInt 1000) then 5230.78
      else if num_le (PyInt 1000) chargeable_weight_kg \<and> num_lt chargeable_weight_kg (PyInt 3000)
        then 3130.78
      else if num_le (PyInt 3000) chargeable_weight_kg \<and> num_lt chargeable_weight_kg (PyInt 10000)
        then 2180.78
      else 1200.78)"

text \<open>
  Lines 136 to 148. The \<open>except\<close> clause of \<open>calculate_weight_from_dimensions\<close> catches
  \<open>ValueError\<close> and \<open>TypeError\<close> only: the \<open>OverflowError\<close> of \<open>float\<close> on a large \<open>int\<close>
  leaves the function.
\<close>

definition swallow :: "exn \<Rightarrow> exn + number" where
  "swallow e = (if e = ValueError \<or> e = TypeError then Inr (PyInt 0) else Inl e)"

definition calculate_weight_from_dimensions_num ::
  "interp \<Rightarrow> pv \<Rightarrow> pv \<Rightarrow> pv \<Rightarrow> real \<Rightarrow> exn + number" where
  "calculate_weight_from_dimensions_num P len wid hei factor =
     (if len = VNone \<or> wid = VNone \<or> hei = VNone then Inr (PyInt 0)
      else
        (case float_num P len of
           Inl e \<Rightarrow> swallow e
         | Inr l \<Rightarrow>
        (case float_num P wid of
           Inl e \<Rightarrow> swallow e
         | Inr w \<Rightarrow>
        (case float_num P hei of
           Inl e \<Rightarrow> swallow e
         | Inr h \<Rightarrow>
             Inr (PyFloat (fdiv (fmul (fmul l w) h) (if factor \<le> 0 then 6000 else factor)))))))"

text \<open>
The twelve arguments of \<open>calculate_shipping_rate\<close>, and the dictionary it returns.
\<close>

record call =
  distance_km_v :: pv
  actual_weight_kg_v :: pv
  quantity_v :: pv
  vol_length_cm_v :: pv
  vol_width_cm_v :: pv
  vol_height_cm_v :: pv
  pickup_zone_name_v :: pystr
  delivery_zone_name_v :: pystr
  delivery_point_v :: pv
  goods_type_v :: pystr
  vehicle_type_v :: pystr
  proposed_coefficient_v :: pv

record coefs_num =
  km_n :: real
  zone_n :: real
  goods_n :: real
  vehicle_n :: real
  size_n :: real
  proposed_n :: fl

record results_num =
  error_n :: "error_descriptor option"
  chargeable_weight_n :: "number option"
  volumetric_weight_n :: "number option"
  actual_weight_n :: "number option"
  coefficients_n :: "coefs_num option"
  base_freight_n :: "number option"
  delivery_fee_n :: "number option"
  total_cost_n :: "number option"
  shared_vehicle_cost_n :: "number option"
  full_vehicle_cost_n :: "number option"
  customer_price_n :: "number option"

definition initial_results_num :: results_num where
  "initial_results_num = \<lparr> error_n = None, chargeable_weight_n = None,
     volumetric_weight_n = None, actual_weight_n = None, coefficients_n = None,
     base_freight_n = None, delivery_fee_n = None, total_cost_n = None,
     shared_vehicle_cost_n = None, full_vehicle_cost_n = None, customer_price_n = None \<rparr>"

definition caught_num :: "exn \<Rightarrow> results_num \<Rightarrow> results_num" where
  "caught_num e res = res\<lparr> error_n := Some (describe e) \<rparr>"

text \<open>
  Lines 173 to 185: the conversions, the volumetric weight, the totals and the chargeable
  weight. The chargeable weight is the \<open>int\<close> 1 after the clamp, the \<open>int\<close> 0 never.
\<close>

definition weigh_num :: "interp \<Rightarrow> config \<Rightarrow> call \<Rightarrow> exn + (fl \<times> fl \<times> number \<times> number \<times> number)" where
  "weigh_num P cfg c =
     (case float_num P (distance_km_v c) of
        Inl e \<Rightarrow> Inl e
      | Inr distance \<Rightarrow>
     (case (if actual_weight_kg_v c \<noteq> VNone
            then (case float_num P (actual_weight_kg_v c) of Inl e \<Rightarrow> Inl e | Inr x \<Rightarrow> Inr (PyFloat x))
            else Inr (PyInt 0)) of
        Inl e \<Rightarrow> Inl e
      | Inr weight \<Rightarrow>
     (case (if quantity_v c \<noteq> VNone then int_num P (quantity_v c) else Inr 1) of
        Inl e \<Rightarrow> Inl e
      | Inr qty \<Rightarrow>
     (case (if proposed_coefficient_v c \<noteq> VNone then float_num P (proposed_coefficient_v c)
            else Inr (Fin 1.0)) of
        Inl e \<Rightarrow> Inl e
      | Inr proposed_coef \<Rightarrow>
     (case config_constant cfg ''vol_weight_factor'' of
        Inl e \<Rightarrow> Inl e
      | Inr factor \<Rightarrow>
     (case calculate_weight_from_dimensions_num P
             (vol_length_cm_v c) (vol_width_cm_v c) (vol_height_cm_v c) factor of
        Inl e \<Rightarrow> Inl e
      | Inr vol_weight \<Rightarrow>
     (case num_mul vol_weight (PyInt qty) of
        Inl e \<Rightarrow> Inl e
      | Inr vol_weight_total \<Rightarrow>
     (case num_mul weight (PyInt qty) of
        Inl e \<Rightarrow> Inl e
      | Inr actual_weight_total \<Rightarrow>
          (let cw = (if num_lt (PyInt 0) vol_weight_total
                     then (if num_lt actual_weight_total vol_weight_total
                           then vol_weight_total else actual_weight_total)
                     else actual_weight_total);
               cw = (if num_le cw (PyInt 0) then PyInt 1 else cw)
           in Inr (distance, proposed_coef, cw, vol_weight_total, actual_weight_total))))))))))"

text \<open>
Lines 192 to 198.
\<close>

definition resolve_coefficients_num :: "config \<Rightarrow> call \<Rightarrow> fl \<Rightarrow> fl \<Rightarrow> exn + coefs_num" where
  "resolve_coefficients_num cfg c distance proposed_coef =
     (case get_km_coefficient_num cfg distance of
        Inl e \<Rightarrow> Inl e
      | Inr km_coef \<Rightarrow>
     (case get_zone_coefficient cfg (pickup_zone_name_v c) of
        Inl e \<Rightarrow> Inl e
      | Inr pickup_zone_coef \<Rightarrow>
     (case get_zone_coefficient cfg (delivery_zone_name_v c) of
        Inl e \<Rightarrow> Inl e
      | Inr delivery_zone_coef \<Rightarrow>
     (case get_goods_coefficient cfg (goods_type_v c) of
        Inl e \<Rightarrow> Inl e
      | Inr goods_coef \<Rightarrow>
     (case get_vehicle_coefficient cfg (vehicle_type_v c) of
        Inl e \<Rightarrow> Inl e
      | Inr vehicle_coef \<Rightarrow>
     (case max_num [or0_num (vol_length_cm_v c), or0_num (vol_width_cm_v c),
                    or0_num (vol_height_cm_v c)] of
        Inl e \<Rightarrow> Inl e
      | Inr max_dimension \<Rightarrow>
     (case get_size_coefficient_num cfg max_dimension of
        Inl e \<Rightarrow> Inl e
      | Inr size_coef \<Rightarrow>
          Inr \<lparr> km_n = km_coef, zone_n = max pickup_zone_coef delivery_zone_coef,
                goods_n = goods_coef, vehicle_n = vehicle_coef, size_n = size_coef,
                proposed_n = proposed_coef \<rparr>)))))))"

text \<open>
  Lines 217 to 219. A delivery point that is a number other than zero has no method
  \<open>lower\<close>.
\<close>

definition delivery_fee_num :: "config \<Rightarrow> pv \<Rightarrow> exn + number" where
  "delivery_fee_num cfg dp =
     (if \<not> truthy_num dp then Inr (PyInt 0)
      else case dp of
        VStr s \<Rightarrow>
          (if py_strip (py_lower s) = cps ''tp vinh'' then
             (case config_constant cfg ''delivery_vinh_base'' of
                Inl e \<Rightarrow> Inl e
              | Inr base \<Rightarrow>
             (case config_constant cfg ''delivery_vinh_rate'' of
                Inl e \<Rightarrow> Inl e
              | Inr rate \<Rightarrow> Inr (PyFloat (fmul (Fin base) (Fin rate)))))
           else Inr (PyInt 0))
      | _ \<Rightarrow> Inl AttributeError)"

text \<open>
A product evaluated from left to right, \<open>x * c1 * c2 * ...\<close>.
\<close>

definition times_all :: "fl \<Rightarrow> real list \<Rightarrow> fl" where
  "times_all x cs = foldl (\<lambda>acc c. fmul acc (Fin c)) x cs"

text \<open>
  Lines 239 and 240: \<open>round\<close> on the six monetary keys, in the order of the list. All ten
  keys are stored when the loop starts; a \<open>round\<close> that raises leaves the keys before it
  rounded and the others as they were.
\<close>

definition round_money_num :: "results_num \<Rightarrow> number \<Rightarrow> number \<Rightarrow> number \<Rightarrow> number \<Rightarrow> number \<Rightarrow> results_num" where
  "round_money_num res freight fee total_v shared full =
     (case round_num freight of
        Inl e \<Rightarrow> caught_num e res
      | Inr v \<Rightarrow>
     (let res = res\<lparr> base_freight_n := Some v \<rparr> in
      case round_num fee of
        Inl e \<Rightarrow> caught_num e res
      | Inr v \<Rightarrow>
     (let res = res\<lparr> delivery_fee_n := Some v \<rparr> in
      case round_num total_v of
        Inl e \<Rightarrow> caught_num e res
      | Inr v \<Rightarrow>
     (let res = res\<lparr> total_cost_n := Some v \<rparr> in
      case round_num shared of
        Inl e \<Rightarrow> caught_num e res
      | Inr v \<Rightarrow>
     (let res = res\<lparr> shared_vehicle_cost_n := Some v \<rparr> in
      case round_num full of
        Inl e \<Rightarrow> caught_num e res
      | Inr v \<Rightarrow>
     (let res = res\<lparr> full_vehicle_cost_n := Some v \<rparr> in
      case round_num total_v of
        Inl e \<Rightarrow> caught_num e res
      | Inr v \<Rightarrow> res\<lparr> customer_price_n := Some v \<rparr>))))))"

text \<open>
  \<open>calculate_shipping_rate\<close>, lines 169 to 249. Every statement that stores a key is
  followed here by the statements that may raise before the next one is stored; the three
  \<open>except\<close> clauses are \<open>caught_num\<close>.
\<close>

definition calculate_shipping_rate_num :: "interp \<Rightarrow> config \<Rightarrow> call \<Rightarrow> results_num" where
  "calculate_shipping_rate_num P cfg c =
     (let res = initial_results_num in
      case weigh_num P cfg c of
        Inl e \<Rightarrow> caught_num e res
      | Inr (distance, proposed_coef, cw, vol_weight_total, actual_weight_total) \<Rightarrow>
     (let res = res\<lparr> chargeable_weight_n := Some cw,
                       volumetric_weight_n := Some vol_weight_total,
                       actual_weight_n := Some actual_weight_total \<rparr> in
      case resolve_coefficients_num cfg c distance proposed_coef of
        Inl e \<Rightarrow> caught_num e res
      | Inr k \<Rightarrow>
     (let res = res\<lparr> coefficients_n := Some k \<rparr>;
          base_rate = get_base_rate_num cw in
      case to_fl cw of
        Inl e \<Rightarrow> caught_num e res
      | Inr w \<Rightarrow>
     (let freight = fmul (fmul (times_all w [km_n k, zone_n k, goods_n k, size_n k]) (proposed_n k))
                      (Fin base_rate);
          res = res\<lparr> base_freight_n := Some (PyFloat freight) \<rparr> in
      case delivery_fee_num cfg (delivery_point_v c) of
        Inl e \<Rightarrow> caught_num e res
      | Inr fee \<Rightarrow>
     (let res = res\<lparr> delivery_fee_n := Some fee \<rparr>;
          total = fadd freight (as_fl fee);
          res = res\<lparr> total_cost_n := Some (PyFloat total) \<rparr>;
          shared = fmul freight (Fin 0.9);
          res = res\<lparr> shared_vehicle_cost_n := Some (PyFloat shared) \<rparr> in
      case config_constant cfg ''full_vehicle_rate'' of
        Inl e \<Rightarrow> caught_num e res
      | Inr full_vehicle_rate \<Rightarrow>
     (let full = fmul (fmul (times_all w [km_n k, zone_n k, goods_n k, vehicle_n k]) (proposed_n k))
                   (Fin full_vehicle_rate);
          res = res\<lparr> full_vehicle_cost_n := Some (PyFloat full) \<rparr>;
          res = res\<lparr> customer_price_n := Some (PyFloat total) \<rparr>
      in round_money_num res (PyFloat freight) fee (PyFloat total) (PyFloat shared) (PyFloat full)))))))"

text \<open>
  Which of the ten breakdown keys a result holds, in the order in which the code stores
  them: chargeable, volumetric and actual weight, coefficients, base freight, delivery
  fee, total cost, shared-vehicle cost, full-vehicle cost, customer price.
\<close>

definition stored :: "results_num \<Rightarrow> bool list" where
  "stored r =
     [chargeable_weight_n r \<noteq> None, volumetric_weight_n r \<noteq> None, actual_weight_n r \<noteq> None,
      coefficients_n r \<noteq> None, base_freight_n r \<noteq> None, delivery_fee_n r \<noteq> None,
      total_cost_n r \<noteq> None, shared_vehicle_cost_n r \<noteq> None, full_vehicle_cost_n r \<noteq> None,
      customer_price_n r \<noteq> None]"

definition first_fields :: "nat \<Rightarrow> bool list" where
  "first_fields n = replicate n True @ replicate (10 - n) False"


text \<open>
  The example of the signature once more (156 km, 1000 kg, one package, no dimensions),
  and the same call with a weight of \<open>1e306\<close> kg.
\<close>

definition no_parse_num :: interp where
  "no_parse_num = \<lparr> float_of_str = (\<lambda>s. None), int_of_str = (\<lambda>s. None) \<rparr>"

definition example_call :: call where
  "example_call = \<lparr>
     distance_km_v = VNum (PyFloat (Fin 156)), actual_weight_kg_v = VNum (PyFloat (Fin 1000)),
     quantity_v = VNum (PyInt 1),
     vol_length_cm_v = VNone, vol_width_cm_v = VNone, vol_height_cm_v = VNone,
     pickup_zone_name_v = s_pickup_zone example_shipment,
     delivery_zone_name_v = s_delivery_zone example_shipment,
     delivery_point_v = VStr [],
     goods_type_v = s_goods example_shipment,
     vehicle_type_v = s_vehicle example_shipment,
     proposed_coefficient_v = VNum (PyFloat (Fin 1.0)) \<rparr>"

definition overflowing_call :: call where
  "overflowing_call = example_call\<lparr>actual_weight_kg_v := VNum (PyFloat (Fin (10 ^ 306)))\<rparr>"

subsection \<open>The request handler of app.py\<close>

text \<open>
  The names that an instance of \<open>ShippingCalculator\<close> defines: the class attribute, the
  thirteen methods and the instance attribute \<open>config\<close>. \<open>calc.name\<close> on any other name
  raises \<open>AttributeError\<close> (the attributes that every object inherits are left out; none
  is called \<open>calculate_cost\<close>).
\<close>

definition ShippingCalculator_attributes :: "string list" where
  "ShippingCalculator_attributes =
     [''DEFAULT_CONFIG'', ''__init__'', ''config'', ''get_km_coefficient'',
      ''get_zone_coefficient'', ''get_goods_coefficient'', ''get_vehicle_coefficient'',
      ''get_size_coefficient'', ''get_base_rate'', ''calculate_weight_from_dimensions'',
      ''get_zone_name_from_loc'', ''calculate_shipping_rate'', ''format_price'',
      ''process_query'', ''parse_user_query'']"

definition getattr_calc :: "string \<Rightarrow> exn + string" where
  "getattr_calc name =
     (if name \<in> set ShippingCalculator_attributes then Inr name else Inl AttributeError)"

text \<open>
  A decoded JSON value. \<open>json.loads\<close> reads \<open>1e999\<close> as an infinite float and accepts the
  literals \<open>Infinity\<close> and \<open>NaN\<close>; an integer literal of any length is an \<open>int\<close>. The
  members of an object are listed with distinct keys, as a dictionary holds them.
\<close>

datatype json = JNull | JBool bool | JNum number | JStr pystr | JArray "json list"
  | JObject "(pystr \<times> json) list"

text \<open>
  What \<open>request.get_json()\<close> hands to the handler: the framework rejects the request
  (the handler is left with an HTTP error before its second statement), or the body is
  decoded.
\<close>

datatype json_body = Rejected | Decoded json

definition dict_get :: "(pystr \<times> json) list \<Rightarrow> string \<Rightarrow> json \<Rightarrow> json" where
  "dict_get d key dflt = (case map_of d (cps key) of None \<Rightarrow> dflt | Some v \<Rightarrow> v)"

text \<open>
  \<open>float\<close> and \<open>int\<close> on a decoded value: \<open>true\<close> and \<open>false\<close> are the integers 1 and 0, an
  array or an object raises \<open>TypeError\<close>.
\<close>

definition float_json :: "interp \<Rightarrow> json \<Rightarrow> exn + fl" where
  "float_json P v =
     (case v of
        JNull \<Rightarrow> float_num P VNone
      | JBool b \<Rightarrow> Inr (Fin (if b then 1 else 0))
      | JNum n \<Rightarrow> float_num P (VNum n)
      | JStr s \<Rightarrow> float_num P (VStr s)
      | JArray xs \<Rightarrow> Inl TypeError
      | JObject d \<Rightarrow> Inl TypeError)"

definition int_json :: "interp \<Rightarrow> json \<Rightarrow> exn + int" where
  "int_json P v =
     (case v of
        JNull \<Rightarrow> int_num P VNone
      | JBool b \<Rightarrow> Inr (if b then 1 else 0)
      | JNum n \<Rightarrow> int_num P (VNum n)
      | JStr s \<Rightarrow> int_num P (VStr s)
      | JArray xs \<Rightarrow> Inl TypeError
      | JObject d \<Rightarrow> Inl TypeError)"

text \<open>
The dictionary passed to \<open>jsonify\<close>.
\<close>

record quote =
  q_loaihang :: json
  q_diemnhan :: json
  q_diemgiao :: json
  q_km :: fl
  q_sokien :: int
  q_trongluong :: fl
  q_gia :: json

datatype outcome = Aborts | Raises exn | Returns quote

text \<open>
  \<open>baogia\<close>. \<open>data.get\<close> raises \<open>AttributeError\<close> on a value that is not an object.
  Calling an attribute of \<open>calc\<close> with the four keyword arguments is the parameter
  \<open>invoke\<close>: the handler is modelled whatever such a call would do.
\<close>

definition baogia ::
  "interp \<Rightarrow> (string \<Rightarrow> (string \<times> json) list \<Rightarrow> exn + json) \<Rightarrow> json_body \<Rightarrow> outcome" where
  "baogia P invoke body =
     (case body of
        Rejected \<Rightarrow> Aborts
      | Decoded (JObject data) \<Rightarrow>
          (let loaihang = dict_get data ''loaihang''
                 (JStr (cps ''H'' @ [224] @ cps ''ng ti'' @ [234] @ cps ''u d'' @ [249] @ cps ''ng''));
               diemnhan = dict_get data ''diemnhan'' (JStr []);
               diemgiao = dict_get data ''diemgiao'' (JStr [])
           in
           case float_json P (dict_get data ''km'' (JNum (PyInt 0))) of
             Inl e \<Rightarrow> Raises e
           | Inr km \<Rightarrow>
          (case int_json P (dict_get data ''sokien'' (JNum (PyInt 1))) of
             Inl e \<Rightarrow> Raises e
           | Inr sokien \<Rightarrow>
          (case float_json P (dict_get data ''trongluong'' (JNum (PyInt 0))) of
             Inl e \<Rightarrow> Raises e
           | Inr trongluong \<Rightarrow>
          (case getattr_calc ''calculate_cost'' of
             Inl e \<Rightarrow> Raises e
           | Inr method \<Rightarrow>
          (case invoke method
                  [(''km'', JNum (PyFloat km)), (''weight'', JNum (PyFloat trongluong)),
                   (''goods_type'', loaihang),
                   (''zone'', JStr (cps ''V'' @ [249] @ cps ''ng c'' @ [242] @ cps ''n l'' @ [7841]
                                      @ cps ''i''))] of
             Inl e \<Rightarrow> Raises e
           | Inr giacuoc \<Rightarrow>
               Returns \<lparr> q_loaihang = loaihang, q_diemnhan = diemnhan, q_diemgiao = diemgiao,
                         q_km = km, q_sokien = sokien, q_trongluong = trongluong,
                         q_gia = giacuoc \<rparr>)))))
      | Decoded _ \<Rightarrow> Raises AttributeError)"

section \<open>Verified properties\<close>

subsection \<open>Band lookup\<close>

lemma filter_take_index:
  assumes "i < length xs" "\<forall>k\<le>i. P (xs ! k)" "\<forall>j. i < j \<and> j < length xs \<longrightarrow> \<not> P (xs ! j)"
  shows "filter P xs = take (Suc i) xs"
proof -
  have a: "filter P (take (Suc i) xs) = take (Suc i) xs"
  proof (rule filter_True, clarify)
    fix x assume "x \<in> set (take (Suc i) xs)"
    then obtain k where "k < Suc i" "k < length xs" "x = xs ! k"
      by (auto simp: in_set_conv_nth)
    with assms(2) show "P x" by auto
  qed
  have b: "filter P (drop (Suc i) xs) = []"
  proof (rule filter_False, clarify)
    fix x assume "x \<in> set (drop (Suc i) xs)" "P x"
    then obtain k where "k < length xs - Suc i" "x = xs ! (Suc i + k)"
      by (auto simp: in_set_conv_nth)
    with assms(3) \<open>P x\<close> show False by auto
  qed
  have "filter P xs = filter P (take (Suc i) xs @ drop (Suc i) xs)" by simp
  also have "\<dots> = take (Suc i) xs" using a b by (simp only: filter_append) simp
  finally show ?thesis .
qed

lemma cft_index:
  assumes "sorted (map fst table)" "i < length table" "fst (table ! i) \<le> v"
    "\<forall>j. i < j \<and> j < length table \<longrightarrow> v < fst (table ! j)"
  shows "coefficient_for_threshold table v = snd (table ! i)"
proof -
  have le: "\<forall>k\<le>i. fst (table ! k) \<le> v"
  proof (intro allI impI)
    fix k assume "k \<le> i"
    then have "map fst table ! k \<le> map fst table ! i"
      using assms(1,2) by (simp add: sorted_iff_nth_mono del: nth_map)
    with assms(2,3) \<open>k \<le> i\<close> show "fst (table ! k) \<le> v" by simp
  qed
  have "filter (\<lambda>b. fst b \<le> v) table = take (Suc i) table"
    using filter_take_index[of i table "\<lambda>b. fst b \<le> v"] assms(2,4) le by force
  moreover have "take (Suc i) table \<noteq> []" using assms(2) by auto
  moreover have "last (take (Suc i) table) = table ! i"
    using assms(2) by (simp add: take_Suc_conv_app_nth)
  ultimately show ?thesis
    by (simp add: coefficient_for_threshold_def)
qed

lemma cft_below: "\<forall>b\<in>set table. v < fst b \<Longrightarrow> coefficient_for_threshold table v = snd (hd table)"
proof -
  assume "\<forall>b\<in>set table. v < fst b"
  then have "filter (\<lambda>b. fst b \<le> v) table = []" by (auto simp: filter_empty_conv)
  then show ?thesis by (simp add: coefficient_for_threshold_def)
qed

lemma cft_beyond:
  assumes "table \<noteq> []" "fst (last table) \<le> v"
  shows "coefficient_for_threshold table v = snd (last table)"
proof -
  obtain ys y where t: "table = ys @ [y]" using assms(1) by (cases table rule: rev_cases) auto
  with assms(2) have "filter (\<lambda>b. fst b \<le> v) table = filter (\<lambda>b. fst b \<le> v) ys @ [y]" by simp
  then show ?thesis using t by (simp add: coefficient_for_threshold_def)
qed

lemma band_loop_filter:
  "sorted (map fst bs) \<Longrightarrow>
   band_loop v bs acc =
     (if filter (\<lambda>b. fst b \<le> v) bs = [] then acc else snd (last (filter (\<lambda>b. fst b \<le> v) bs)))"
proof (induction bs arbitrary: acc)
  case Nil
  then show ?case by simp
next
  case (Cons a bs)
  obtain t c where a: "a = (t, c)" by (cases a)
  show ?case
  proof (cases "t \<le> v")
    case True
    with Cons a show ?thesis by simp
  next
    case False
    with Cons.prems a have "\<forall>b\<in>set bs. \<not> fst b \<le> v" by auto
    then have "filter (\<lambda>b. fst b \<le> v) bs = []" by (simp add: filter_empty_conv)
    with False a show ?thesis by simp
  qed
qed

lemma band_lookup_sorted:
  assumes "sorted (map fst table)" "table \<noteq> []"
  shows "band_lookup table v = Inr (coefficient_for_threshold table v)"
proof -
  have s: "sort_key fst table = table" using assms(1) by (simp add: sort_key_id_if_sorted)
  obtain t0 c0 rest where t: "table = (t0, c0) # rest" using assms(2) by (cases table) auto
  have "band_loop v table c0 = coefficient_for_threshold table v"
    using band_loop_filter[OF assms(1), of v c0] t
    by (simp add: coefficient_for_threshold_def)
  then show ?thesis using s t by (simp add: band_lookup_def)
qed

lemma band_loop_lower: "\<forall>b\<in>set bs. acc \<le> snd b \<Longrightarrow> sorted (map snd bs) \<Longrightarrow> acc \<le> band_loop w bs acc"
  by (induction w bs acc rule: band_loop.induct) (auto)

lemma band_loop_mono:
  "sorted (map snd bs) \<Longrightarrow> \<forall>b\<in>set bs. acc \<le> snd b \<Longrightarrow> v \<le> w \<Longrightarrow>
   band_loop v bs acc \<le> band_loop w bs acc"
proof (induction v bs acc rule: band_loop.induct)
  case (1 v acc)
  then show ?case by simp
next
  case (2 v threshold coef rest acc)
  show ?case
  proof (cases "v \<ge> threshold")
    case True
    with 2 show ?thesis by auto
  next
    case False
    have "acc \<le> band_loop w ((threshold, coef) # rest) acc"
      using band_loop_lower[of "(threshold, coef) # rest" acc w] 2 by blast
    with False show ?thesis by simp
  qed
qed

lemma band_loop_at:
  "sorted_wrt (<) (map fst bs) \<Longrightarrow> (t, c) \<in> set bs \<Longrightarrow> band_loop t bs acc = c"
proof (induction bs arbitrary: acc)
  case Nil then show ?case by simp
next
  case (Cons a bs)
  obtain t' c' where a: "a = (t', c')" by (cases a)
  show ?case
  proof (cases "(t, c) = a")
    case True
    with Cons.prems a have "\<forall>b\<in>set bs. t < fst b" by auto
    then have "band_loop t bs c = c" by (cases bs) auto
    with True a show ?thesis by simp
  next
    case False
    with Cons.prems a have m: "(t, c) \<in> set bs" and "t' < t" by force+
    with Cons a show ?thesis by simp
  qed
qed

lemma band_lookup_defined:
  "table \<noteq> [] \<Longrightarrow> \<exists>t0 c0 rest. sort_key fst table = (t0, c0) # rest"
proof -
  assume "table \<noteq> []"
  then have "length (sort_key fst table) \<noteq> 0" by simp
  then show ?thesis by (cases "sort_key fst table") auto
qed

text \<open>
  C3. On a band table that is not empty and is sorted ascending by threshold,
  \<open>get_km_coefficient\<close> and \<open>get_size_coefficient\<close> return, without an error, the
  coefficient of the highest band whose threshold is at most the value; below every
  threshold that is the lowest band's coefficient, and from the last threshold on it is
  the last band's coefficient.
\<close>

theorem band_lookup_highest_band:
  assumes "table \<noteq> []" and "sorted (map fst table)"
  shows "(km_coefficients cfg = Some table \<longrightarrow>
            get_km_coefficient cfg v = Inr (coefficient_for_threshold table v)) \<and>
         (size_coefficients cfg = Some table \<longrightarrow>
            get_size_coefficient cfg (PNum v) = Inr (coefficient_for_threshold table v)) \<and>
         (\<forall>i < length table.
            fst (table ! i) \<le> v \<and> (\<forall>j. i < j \<and> j < length table \<longrightarrow> v < fst (table ! j)) \<longrightarrow>
            coefficient_for_threshold table v = snd (table ! i)) \<and>
         ((\<forall>b \<in> set table. v < fst b) \<longrightarrow> coefficient_for_threshold table v = snd (hd table)) \<and>
         (fst (last table) \<le> v \<longrightarrow> coefficient_for_threshold table v = snd (last table))"
proof (intro conjI impI allI)
  assume "km_coefficients cfg = Some table"
  then show "get_km_coefficient cfg v = Inr (coefficient_for_threshold table v)"
    using band_lookup_sorted[OF assms(2,1)] by (simp add: get_km_coefficient_def getitem_def)
next
  assume "size_coefficients cfg = Some table"
  then show "get_size_coefficient cfg (PNum v) = Inr (coefficient_for_threshold table v)"
    using band_lookup_sorted[OF assms(2,1)]
    by (simp add: get_size_coefficient_def getitem_def or0_def truthy_def)
next
  fix i
  assume "i < length table"
    and "fst (table ! i) \<le> v \<and> (\<forall>j. i < j \<and> j < length table \<longrightarrow> v < fst (table ! j))"
  then show "coefficient_for_threshold table v = snd (table ! i)"
    using cft_index[OF assms(2), of i v] by blast
next
  assume "\<forall>b \<in> set table. v < fst b"
  then show "coefficient_for_threshold table v = snd (hd table)" by (rule cft_below)
next
  assume "fst (last table) \<le> v"
  then show "coefficient_for_threshold table v = snd (last table)"
    using cft_beyond[OF assms(1)] by blast
qed

theorem band_lookup_highest_band_witness:
  "get_km_coefficient DEFAULT_CONFIG 156 = Inr 0.45 \<and>
   get_km_coefficient DEFAULT_CONFIG 99999 = Inr 1.6 \<and>
   get_size_coefficient
     (DEFAULT_CONFIG\<lparr>size_coefficients := Some [(10, 1.2), (20, 1.3)]\<rparr>) (PNum 5) = Inr 1.2"
proof -
  let ?km = "[(0, 0.35), (50, 0.35), (100, 0.4), (150, 0.45), (200, 0.5), (250, 0.55),
        (300, 0.6), (350, 0.65), (400, 0.7), (450, 0.75), (500, 0.8), (550, 0.825),
        (600, 0.85), (650, 0.875), (700, 0.9), (750, 0.925), (800, 0.95), (850, 0.975),
        (900, 1.0), (950, 1.025), (1000, 1.05), (1100, 1.075), (1200, 1.1), (1300, 1.125),
        (1400, 1.15), (1500, 1.175), (1600, 1.2), (1700, 1.225), (1800, 1.25), (1900, 1.275),
        (2000, 1.3), (2100, 1.325), (2200, 1.35), (2300, 1.375), (2400, 1.4), (2500, 1.6)] :: bands"
  let ?sz = "[(10, 1.2), (20, 1.3)] :: bands"
  have k: "km_coefficients DEFAULT_CONFIG = Some ?km" by (simp add: DEFAULT_CONFIG_def)
  have ne: "?km \<noteq> []" and so: "sorted (map fst ?km)" by simp_all
  have a: "get_km_coefficient DEFAULT_CONFIG 156 = Inr 0.45"
    using band_lookup_highest_band[OF ne so, of DEFAULT_CONFIG 156] k
    by (simp add: coefficient_for_threshold_def)
  have b: "get_km_coefficient DEFAULT_CONFIG 99999 = Inr 1.6"
    using band_lookup_highest_band[OF ne so, of DEFAULT_CONFIG 99999] k
    by (simp add: coefficient_for_threshold_def)
  have ne': "?sz \<noteq> []" and so': "sorted (map fst ?sz)" by simp_all
  have c: "get_size_coefficient
     (DEFAULT_CONFIG\<lparr>size_coefficients := Some ?sz\<rparr>) (PNum 5) = Inr 1.2"
    using band_lookup_highest_band[OF ne' so',
        of "DEFAULT_CONFIG\<lparr>size_coefficients := Some ?sz\<rparr>" 5]
    by (simp add: coefficient_for_threshold_def)
  from a b c show ?thesis by simp
qed

lemma band_loop_range: "band_loop v bs acc \<in> insert acc (snd ` set bs)"
  by (induction v bs acc rule: band_loop.induct) auto

lemma band_lookup_monotone_step:
  assumes "table \<noteq> []" and "sorted (map fst table)" and "sorted (map snd table)"
  shows "\<exists>a b. band_lookup table v = Inr a \<and> band_lookup table w = Inr b \<and>
           (v \<le> w \<longrightarrow> a \<le> b) \<and> a \<in> snd ` set table"
proof -
  have s: "sort_key fst table = table" using assms(2) by (simp add: sort_key_id_if_sorted)
  obtain t0 c0 rest where t: "table = (t0, c0) # rest" using assms(1) by (cases table) auto
  have lo: "\<forall>b \<in> set table. c0 \<le> snd b" using assms(3) t by auto
  have m: "v \<le> w \<longrightarrow> band_loop v table c0 \<le> band_loop w table c0"
    using band_loop_mono[OF assms(3) lo] by blast
  have "band_loop v table c0 \<in> insert c0 (snd ` set table)" by (rule band_loop_range)
  then have r: "band_loop v table c0 \<in> snd ` set table" using t by auto
  have "band_lookup table v = Inr (band_loop v table c0)"
    and "band_lookup table w = Inr (band_loop w table c0)"
    using s t by (simp_all add: band_lookup_def)
  with m r show ?thesis by blast
qed

lemma band_lookup_at_threshold:
  assumes "sorted_wrt (<) (map fst table)" and "(t, c) \<in> set table"
  shows "band_lookup table t = Inr c"
proof -
  have "sorted (map fst table)" using assms(1) by (rule strict_sorted_imp_sorted)
  then have s: "sort_key fst table = table" by (simp add: sort_key_id_if_sorted)
  obtain t0 c0 rest where t: "table = (t0, c0) # rest" using assms(2) by (cases table) auto
  have "band_loop t table c0 = c" using band_loop_at[OF assms] .
  then show ?thesis using s t by (simp add: band_lookup_def)
qed

text \<open>
  C7, as stated, fails: with thresholds ascending and coefficients descending, a larger
  distance gets a smaller coefficient.
\<close>

theorem band_lookup_not_monotone_counterexample:
  "sorted (map fst [(0 :: real, 2 :: real), (10, 1)]) \<and> (5 :: real) \<le> 15 \<and>
   get_km_coefficient (DEFAULT_CONFIG\<lparr>km_coefficients := Some [(0, 2), (10, 1)]\<rparr>) 5 = Inr 2 \<and>
   get_km_coefficient (DEFAULT_CONFIG\<lparr>km_coefficients := Some [(0, 2), (10, 1)]\<rparr>) 15 = Inr 1 \<and>
   \<not> (2 :: real) \<le> 1"
  by (simp add: get_km_coefficient_def getitem_def band_lookup_def)

text \<open>
  C7, amended. On a band table that is not empty, sorted ascending by threshold and whose
  coefficients do not decrease along the table (both embedded tables are such), the
  lookup of \<open>get_km_coefficient\<close> and of \<open>get_size_coefficient\<close> is a step function of
  the value: it never fails, takes its values among the table's coefficients and is
  monotonic non-decreasing. When the thresholds are strictly ascending, a value exactly
  at a threshold takes that threshold's coefficient.
\<close>

theorem band_lookup_monotone:
  assumes "table \<noteq> []" and "sorted (map fst table)" and "sorted (map snd table)"
  shows "(km_coefficients cfg = Some table \<longrightarrow>
           (\<exists>a b. get_km_coefficient cfg v = Inr a \<and> get_km_coefficient cfg w = Inr b \<and>
                  (v \<le> w \<longrightarrow> a \<le> b) \<and> a \<in> snd ` set table) \<and>
           (sorted_wrt (<) (map fst table) \<longrightarrow>
              (\<forall>(t, c) \<in> set table. get_km_coefficient cfg t = Inr c))) \<and>
         (size_coefficients cfg = Some table \<longrightarrow>
           (\<exists>a b. get_size_coefficient cfg (PNum v) = Inr a \<and>
                  get_size_coefficient cfg (PNum w) = Inr b \<and>
                  (v \<le> w \<longrightarrow> a \<le> b) \<and> a \<in> snd ` set table) \<and>
           (sorted_wrt (<) (map fst table) \<longrightarrow>
              (\<forall>(t, c) \<in> set table. get_size_coefficient cfg (PNum t) = Inr c)))"
proof -
  have sz: "get_size_coefficient cfg (PNum x) = band_lookup table x"
    if "size_coefficients cfg = Some table" for x
    using that by (simp add: get_size_coefficient_def getitem_def or0_def truthy_def)
  have km: "get_km_coefficient cfg x = band_lookup table x"
    if "km_coefficients cfg = Some table" for x
    using that by (simp add: get_km_coefficient_def getitem_def)
  have step: "\<exists>a b. band_lookup table v = Inr a \<and> band_lookup table w = Inr b \<and>
           (v \<le> w \<longrightarrow> a \<le> b) \<and> a \<in> snd ` set table"
    using band_lookup_monotone_step[OF assms] .
  have at: "\<forall>(t, c) \<in> set table. band_lookup table t = Inr c"
    if "sorted_wrt (<) (map fst table)"
    using band_lookup_at_threshold[OF that] by blast
  show ?thesis using km sz step at by simp
qed

theorem band_lookup_monotone_witness:
  "(\<exists>a b. get_size_coefficient DEFAULT_CONFIG (PNum 250) = Inr a \<and>
          get_size_coefficient DEFAULT_CONFIG (PNum 700) = Inr b \<and> a \<le> b) \<and>
   get_size_coefficient DEFAULT_CONFIG (PNum 300) = Inr 1.3"
proof -
  let ?sz = "[(0, 1.0), (200, 1.2), (300, 1.3), (400, 1.4), (600, 1.5), (800, 1.8),
              (1100, 2.0)] :: bands"
  have k: "size_coefficients DEFAULT_CONFIG = Some ?sz" by (simp add: DEFAULT_CONFIG_def)
  have ne: "?sz \<noteq> []" and so: "sorted (map fst ?sz)" and co: "sorted (map snd ?sz)"
    and st: "sorted_wrt (<) (map fst ?sz)" and le: "(250 :: real) \<le> 700"
    and m: "(300, 1.3) \<in> set ?sz"
    by simp_all
  from band_lookup_monotone[OF ne so co, of DEFAULT_CONFIG 250 700] k st le
  have "(\<exists>a b. get_size_coefficient DEFAULT_CONFIG (PNum 250) = Inr a \<and>
          get_size_coefficient DEFAULT_CONFIG (PNum 700) = Inr b \<and> a \<le> b)"
    and "\<forall>(t, c) \<in> set ?sz. get_size_coefficient DEFAULT_CONFIG (PNum t) = Inr c"
    by blast+
  then show ?thesis using m by blast
qed

subsection \<open>The successful path of calculate_shipping_rate\<close>

lemma py_round_nearest: "\<bar>of_int (py_round x) - x\<bar> \<le> 1 / 2"
proof -
  have "of_int \<lfloor>x\<rfloor> \<le> x" "x < of_int \<lfloor>x\<rfloor> + 1" by linarith+
  then show ?thesis by (auto simp: py_round_def Let_def)
qed

lemma rounded_int: "rounded x \<in> \<int>"
  by (simp add: rounded_def)

lemma rounded_nearest: "\<bar>rounded x - x\<bar> \<le> 1 / 2"
  unfolding rounded_def by (rule py_round_nearest)

lemma calc_ok:
  assumes "weigh B cfg rq = Inr (distance, p, cw, vt, awt)"
    and "resolve_coefficients cfg rq distance p = Inr c"
    and "delivery_fee_of cfg (delivery_point rq) = Inr fee"
    and "config_constant cfg ''full_vehicle_rate'' = Inr fvr"
  shows "calculate_shipping_rate B cfg rq =
    \<lparr> error = None, chargeable_weight = Some cw, volumetric_weight = Some vt,
      actual_weight = Some awt, coefficients = Some c,
      base_freight = Some (rounded (cw * coef_km c * coef_zone c * coef_goods c * coef_size c
                                     * coef_proposed c * get_base_rate cw)),
      delivery_fee = Some (rounded fee),
      total_cost = Some (rounded (cw * coef_km c * coef_zone c * coef_goods c * coef_size c
                                     * coef_proposed c * get_base_rate cw + fee)),
      shared_vehicle_cost = Some (rounded (cw * coef_km c * coef_zone c * coef_goods c * coef_size c
                                     * coef_proposed c * get_base_rate cw * 0.9)),
      full_vehicle_cost = Some (rounded (cw * coef_km c * coef_zone c * coef_goods c
                                     * coef_vehicle c * coef_proposed c * fvr)),
      customer_price = Some (rounded (cw * coef_km c * coef_zone c * coef_goods c * coef_size c
                                     * coef_proposed c * get_base_rate cw + fee)) \<rparr>"
  using assms
  by (simp add: calculate_shipping_rate_def Let_def round_money_def initial_results_def)

lemma calc_error_cases:
  "error (calculate_shipping_rate B cfg rq) = None \<Longrightarrow>
   \<exists>distance p cw vt awt c fee fvr.
     weigh B cfg rq = Inr (distance, p, cw, vt, awt) \<and>
     resolve_coefficients cfg rq distance p = Inr c \<and>
     delivery_fee_of cfg (delivery_point rq) = Inr fee \<and>
     config_constant cfg ''full_vehicle_rate'' = Inr fvr"
  by (auto simp: calculate_shipping_rate_def Let_def caught_def initial_results_def
           split: sum.splits prod.splits)

lemma resolve_zone:
  "resolve_coefficients cfg rq d p = Inr c \<Longrightarrow>
   \<exists>zp zd. get_zone_coefficient cfg (pickup_zone_name rq) = Inr zp \<and>
           get_zone_coefficient cfg (delivery_zone_name rq) = Inr zd \<and>
           coef_zone c = max zp zd \<and>
           get_km_coefficient cfg d = Inr (coef_km c) \<and>
           get_goods_coefficient cfg (goods_type rq) = Inr (coef_goods c) \<and>
           get_vehicle_coefficient cfg (vehicle_type rq) = Inr (coef_vehicle c) \<and>
           coef_proposed c = p"
  by (auto simp: resolve_coefficients_def split: sum.splits)

subsection \<open>Typed calls on the embedded configuration\<close>

lemma or0_dim: "or0 (dim d) = PNum (dim0 d)"
  by (cases d) (simp_all add: or0_def dim_def dim0_def truthy_def)

lemma py_max3: "py_max [PNum a, PNum b, PNum c] = Inr (PNum (max (max a b) c))"
  by (simp add: py_max_def py_gt_def max_def)

lemma default_constants:
  "config_constant DEFAULT_CONFIG ''vol_weight_factor'' = Inr 6000"
  "config_constant DEFAULT_CONFIG ''full_vehicle_rate'' = Inr 4076.05"
  "config_constant DEFAULT_CONFIG ''delivery_vinh_base'' = Inr 5445000"
  "config_constant DEFAULT_CONFIG ''delivery_vinh_rate'' = Inr 0.18"
  by (simp_all add: config_constant_def getitem_def DEFAULT_CONFIG_def cps_def)

lemma cwfd_typed:
  "calculate_weight_from_dimensions B (dim (s_length s)) (dim (s_width s)) (dim (s_height s)) 6000
     = typed_volume s"
  by (simp add: calculate_weight_from_dimensions_def dim_def typed_volume_def py_float_def
           split: option.splits)

lemma weigh_typed:
  "weigh B DEFAULT_CONFIG (as_request s) =
     (let vt = typed_volume s * of_int (s_quantity s);
          awt = s_weight s * of_int (s_quantity s);
          cw = (if vt > 0 then max awt vt else awt)
      in Inr (s_distance s, s_proposed s, (if cw \<le> 0 then 1 else cw), vt, awt))"
  by (simp add: weigh_def as_request_def py_float_def py_int_def default_constants
        cwfd_typed[unfolded as_request_def] Let_def)

lemma default_getters:
  "get_km_coefficient DEFAULT_CONFIG d = band_lookup (the (km_coefficients DEFAULT_CONFIG)) d"
  "get_size_coefficient DEFAULT_CONFIG (PNum m) = band_lookup (the (size_coefficients DEFAULT_CONFIG)) m"
  "get_zone_coefficient DEFAULT_CONFIG z = Inr (get_or_one (the (zone_coefficients DEFAULT_CONFIG)) z)"
  "get_goods_coefficient DEFAULT_CONFIG g = Inr (get_or_one (the (goods_coefficients DEFAULT_CONFIG)) g)"
  "get_vehicle_coefficient DEFAULT_CONFIG x = Inr (get_or_one (the (vehicle_coefficients DEFAULT_CONFIG)) x)"
  by (simp_all add: get_km_coefficient_def get_size_coefficient_def get_zone_coefficient_def
        get_goods_coefficient_def get_vehicle_coefficient_def getitem_def DEFAULT_CONFIG_def
        or0_def truthy_def)

lemma default_tables_sorted:
  "the (km_coefficients DEFAULT_CONFIG) \<noteq> []" "sorted (map fst (the (km_coefficients DEFAULT_CONFIG)))"
  "the (size_coefficients DEFAULT_CONFIG) \<noteq> []" "sorted (map fst (the (size_coefficients DEFAULT_CONFIG)))"
  by (simp_all add: DEFAULT_CONFIG_def)

lemma resolve_typed:
  "resolve_coefficients DEFAULT_CONFIG (as_request s) d p =
     Inr \<lparr> coef_km = coefficient_for_threshold (the (km_coefficients DEFAULT_CONFIG)) d,
           coef_zone = max (get_or_one (the (zone_coefficients DEFAULT_CONFIG)) (s_pickup_zone s))
                           (get_or_one (the (zone_coefficients DEFAULT_CONFIG)) (s_delivery_zone s)),
           coef_goods = get_or_one (the (goods_coefficients DEFAULT_CONFIG)) (s_goods s),
           coef_vehicle = get_or_one (the (vehicle_coefficients DEFAULT_CONFIG)) (s_vehicle s),
           coef_size = coefficient_for_threshold (the (size_coefficients DEFAULT_CONFIG))
                         (max (max (dim0 (s_length s)) (dim0 (s_width s))) (dim0 (s_height s))),
           coef_proposed = p \<rparr>"
  by (simp add: resolve_coefficients_def default_getters as_request_def or0_dim py_max3
        band_lookup_sorted default_tables_sorted)

lemma fee_typed:
  "delivery_fee_of DEFAULT_CONFIG (PStr dp) =
     Inr (if py_strip (py_lower dp) = cps ''tp vinh'' then 5445000 * 0.18 else 0)"
proof (cases "dp = []")
  case True
  then show ?thesis
    by (simp add: delivery_fee_of_def truthy_def py_strip_def py_lower_def cps_def)
next
  case False
  then show ?thesis
    by (simp add: delivery_fee_of_def truthy_def default_constants)
qed

lemma as_request_sel: "delivery_point (as_request s) = PStr (s_delivery_point s)"
  by (simp add: as_request_def)

lemma typed_ok:
  "\<exists>cw vt awt c fee.
     weigh B DEFAULT_CONFIG (as_request s) = Inr (s_distance s, s_proposed s, cw, vt, awt) \<and>
     resolve_coefficients DEFAULT_CONFIG (as_request s) (s_distance s) (s_proposed s) = Inr c \<and>
     delivery_fee_of DEFAULT_CONFIG (delivery_point (as_request s)) = Inr fee \<and>
     config_constant DEFAULT_CONFIG ''full_vehicle_rate'' = Inr 4076.05"
  by (simp add: weigh_typed Let_def resolve_typed fee_typed default_constants as_request_sel)

lemma typed_no_error: "error (calculate_shipping_rate B DEFAULT_CONFIG (as_request s)) = None"
proof -
  obtain cw vt awt c fee where a:
     "weigh B DEFAULT_CONFIG (as_request s) = Inr (s_distance s, s_proposed s, cw, vt, awt)"
     "resolve_coefficients DEFAULT_CONFIG (as_request s) (s_distance s) (s_proposed s) = Inr c"
     "delivery_fee_of DEFAULT_CONFIG (delivery_point (as_request s)) = Inr fee"
     "config_constant DEFAULT_CONFIG ''full_vehicle_rate'' = Inr 4076.05"
    using typed_ok by blast
  show ?thesis by (simp add: calc_ok[OF a])
qed

lemma example_result:
  "calculate_shipping_rate B DEFAULT_CONFIG (as_request example_shipment) =
   \<lparr>error = None, chargeable_weight = Some 1000, volumetric_weight = Some 0,
    actual_weight = Some 1000,
    coefficients = Some
       \<lparr>coef_km = 0.45, coef_zone = 1, coef_goods = 1, coef_vehicle = 1,
          coef_size = 1, coef_proposed = 1\<rparr>,
    base_freight = Some 1408851, delivery_fee = Some 0,
    total_cost = Some 1408851, shared_vehicle_cost = Some 1267966,
    full_vehicle_cost = Some 1834222, customer_price = Some 1408851\<rparr>"
proof -
  have w: "weigh B DEFAULT_CONFIG (as_request example_shipment) = Inr (156, 1, 1000, 0, 1000)"
    by (simp add: weigh_typed typed_volume_def example_shipment_def)
  have c: "resolve_coefficients DEFAULT_CONFIG (as_request example_shipment) 156 1 =
      Inr \<lparr>coef_km = 0.45, coef_zone = 1, coef_goods = 1, coef_vehicle = 1,
          coef_size = 1, coef_proposed = 1\<rparr>"
    unfolding resolve_typed
    by (simp add: example_shipment_def DEFAULT_CONFIG_def dim0_def
          coefficient_for_threshold_def get_or_one_def cps_def)
  have f: "delivery_fee_of DEFAULT_CONFIG (delivery_point (as_request example_shipment)) = Inr 0"
    unfolding as_request_sel
    by (simp add: example_shipment_def delivery_fee_of_def truthy_def)
  show ?thesis
    unfolding calc_ok[OF w c f default_constants(2)]
    by (simp add: rounded_def py_round_def get_base_rate_def Let_def)
qed

text \<open>
  C1. Whenever \<open>calculate_shipping_rate\<close> returns without an error, with \<open>cw\<close> the
  chargeable weight and \<open>c\<close> the coefficients it reports: the zone coefficient is the
  larger of the pickup and the delivery zone's; the base freight is
  \<open>cw * km * zone * goods * size * proposed * base_rate\<close>, the total is freight plus
  delivery fee, the shared-vehicle cost is 0.9 times the freight, the full-vehicle cost
  is \<open>cw * km * zone * goods * vehicle * proposed * full_vehicle_rate\<close>, the customer
  price is the total; and each of the six amounts is stored rounded to a nearest integer.
\<close>

theorem breakdown_formula:
  assumes "error (calculate_shipping_rate B cfg rq) = None"
  shows "\<exists>cw c zp zd fee fvr freight.
     chargeable_weight (calculate_shipping_rate B cfg rq) = Some cw \<and>
     coefficients (calculate_shipping_rate B cfg rq) = Some c \<and>
     get_zone_coefficient cfg (pickup_zone_name rq) = Inr zp \<and>
     get_zone_coefficient cfg (delivery_zone_name rq) = Inr zd \<and>
     coef_zone c = max zp zd \<and>
     get_goods_coefficient cfg (goods_type rq) = Inr (coef_goods c) \<and>
     get_vehicle_coefficient cfg (vehicle_type rq) = Inr (coef_vehicle c) \<and>
     delivery_fee_of cfg (delivery_point rq) = Inr fee \<and>
     config_constant cfg ''full_vehicle_rate'' = Inr fvr \<and>
     freight = cw * coef_km c * coef_zone c * coef_goods c * coef_size c * coef_proposed c
                 * get_base_rate cw \<and>
     base_freight (calculate_shipping_rate B cfg rq) = Some (rounded freight) \<and>
     delivery_fee (calculate_shipping_rate B cfg rq) = Some (rounded fee) \<and>
     total_cost (calculate_shipping_rate B cfg rq) = Some (rounded (freight + fee)) \<and>
     shared_vehicle_cost (calculate_shipping_rate B cfg rq) = Some (rounded (freight * 0.9)) \<and>
     full_vehicle_cost (calculate_shipping_rate B cfg rq) =
       Some (rounded (cw * coef_km c * coef_zone c * coef_goods c * coef_vehicle c
                        * coef_proposed c * fvr)) \<and>
     customer_price (calculate_shipping_rate B cfg rq) =
       total_cost (calculate_shipping_rate B cfg rq) \<and>
     (\<forall>x. rounded x \<in> \<int> \<and> \<bar>rounded x - x\<bar> \<le> 1 / 2)"
proof -
  obtain distance p cw vt awt c fee fvr where
    st: "weigh B cfg rq = Inr (distance, p, cw, vt, awt)"
        "resolve_coefficients cfg rq distance p = Inr c"
        "delivery_fee_of cfg (delivery_point rq) = Inr fee"
        "config_constant cfg ''full_vehicle_rate'' = Inr fvr"
    using calc_error_cases[OF assms] by blast
  obtain zp zd where
    z: "get_zone_coefficient cfg (pickup_zone_name rq) = Inr zp"
       "get_zone_coefficient cfg (delivery_zone_name rq) = Inr zd"
       "coef_zone c = max zp zd"
       "get_goods_coefficient cfg (goods_type rq) = Inr (coef_goods c)"
       "get_vehicle_coefficient cfg (vehicle_type rq) = Inr (coef_vehicle c)"
    using resolve_zone[OF st(2)] by blast
  have r: "\<forall>x. rounded x \<in> \<int> \<and> \<bar>rounded x - x\<bar> \<le> 1 / 2"
    using rounded_int rounded_nearest by blast
  show ?thesis
    unfolding calc_ok[OF st]
    using st(3,4) z r by simp
qed

theorem breakdown_formula_witness:
  "error (calculate_shipping_rate no_parse DEFAULT_CONFIG (as_request example_shipment)) = None \<and>
   base_freight (calculate_shipping_rate no_parse DEFAULT_CONFIG (as_request example_shipment))
     = Some 1408851 \<and>
   customer_price (calculate_shipping_rate no_parse DEFAULT_CONFIG (as_request example_shipment))
     = total_cost (calculate_shipping_rate no_parse DEFAULT_CONFIG (as_request example_shipment))"
proof -
  have h: "error (calculate_shipping_rate no_parse DEFAULT_CONFIG (as_request example_shipment)) = None"
    by (simp add: example_result)
  from breakdown_formula[OF h] have
    "customer_price (calculate_shipping_rate no_parse DEFAULT_CONFIG (as_request example_shipment))
     = total_cost (calculate_shipping_rate no_parse DEFAULT_CONFIG (as_request example_shipment))"
    by blast
  with h show ?thesis by (simp add: example_result)
qed







subsection \<open>The delivery surcharge\<close>












subsection \<open>Partly given dimensions\<close>



subsection \<open>Failures of calculate_shipping_rate\<close>



lemma band_lookup_Inl: "band_lookup table v = Inl e \<Longrightarrow> e = IndexError \<and> table = []"
proof -
  assume a: "band_lookup table v = Inl e"
  then have "sort_key fst table = []" and "e = IndexError"
    by (auto simp: band_lookup_def Let_def split: list.splits)
  moreover have "length (sort_key fst table) = length table" by simp
  ultimately show ?thesis by (metis length_0_conv)
qed

subsection \<open>The confidence of parse_user_query\<close>

lemma spans_Seq: "spans ic a s1 \<Longrightarrow> spans ic b s2 \<Longrightarrow> spans ic (Seq a b) (s1 @ s2)"
  unfolding spans_def
proof
  fix t
  assume a: "\<forall>t. \<exists>g. (g, t) \<in> set (rmatch ic a (s1 @ t))"
    and b: "\<forall>t. \<exists>g. (g, t) \<in> set (rmatch ic b (s2 @ t))"
  from a obtain g1 where g1: "(g1, s2 @ t) \<in> set (rmatch ic a (s1 @ s2 @ t))" by blast
  from b obtain g2 where g2: "(g2, t) \<in> set (rmatch ic b (s2 @ t))" by blast
  have "(g1 @ g2, t) \<in> set (rmatch ic (Seq a b) ((s1 @ s2) @ t))"
    using g1 g2 by (force simp: image_iff)
  then show "\<exists>g. (g, t) \<in> set (rmatch ic (Seq a b) ((s1 @ s2) @ t))" by blast
qed

lemma spans_Rep:
  assumes "list_all (in_set ic items) seg" and "least \<le> length seg"
  shows "spans ic (Rep items least greedy) seg"
  unfolding spans_def
proof
  fix t
  have "takeWhile (in_set ic items) (seg @ t) = seg @ takeWhile (in_set ic items) t"
    using assms(1) by (simp add: takeWhile_append2 list_all_iff)
  then have "length seg \<le> length (takeWhile (in_set ic items) (seg @ t))" by simp
  with assms(2) have "length seg \<in> set [least ..< Suc (length (takeWhile (in_set ic items) (seg @ t)))]"
    unfolding set_upt by simp
  then have "([], drop (length seg) (seg @ t)) \<in>
       (\<lambda>k. ([], drop k (seg @ t))) ` set [least ..< Suc (length (takeWhile (in_set ic items) (seg @ t)))]"
    by (rule imageI)
  then have "([], drop (length seg) (seg @ t)) \<in> set (rmatch ic (Rep items least greedy) (seg @ t))"
    by (cases greedy) (simp_all add: Let_def del: upt_Suc)
  then show "\<exists>g. (g, t) \<in> set (rmatch ic (Rep items least greedy) (seg @ t))" by auto
qed

lemma opt_empty: "spans ic (Opt a) []"
  unfolding spans_def
proof
  fix t
  have "([], t) \<in> set (rmatch ic (Opt a) ([] @ t))" by simp
  then show "\<exists>g. (g, t) \<in> set (rmatch ic (Opt a) ([] @ t))" ..
qed

lemma spans_Lit: "lit_match ic c x \<Longrightarrow> spans ic (Lit c) [x]"
  unfolding spans_def by simp

lemma spans_Cls: "in_set ic items x \<Longrightarrow> spans ic (Cls items) [x]"
  unfolding spans_def by simp

lemma spans_Grp:
  assumes "spans ic a seg"
  shows "spans ic (Grp a) seg"
  unfolding spans_def
proof
  fix t
  from assms obtain g where g: "(g, t) \<in> set (rmatch ic a (seg @ t))"
    unfolding spans_def by blast
  have "(\<lambda>p. (take (length (seg @ t) - length (snd p)) (seg @ t) # fst p, snd p)) (g, t)
          \<in> (\<lambda>p. (take (length (seg @ t) - length (snd p)) (seg @ t) # fst p, snd p))
               ` set (rmatch ic a (seg @ t))"
    using g by (rule imageI)
  then have "(seg # g, t) \<in> set (rmatch ic (Grp a) (seg @ t))"
    by simp
  then show "\<exists>g. (g, t) \<in> set (rmatch ic (Grp a) (seg @ t))" ..
qed

lemma spans_Alt: "spans ic a seg \<or> spans ic b seg \<Longrightarrow> spans ic (Alt a b) seg"
  unfolding spans_def by (metis UnI1 UnI2 rmatch.simps(5) set_append)

lemma spans_Opt: "spans ic a seg \<Longrightarrow> spans ic (Opt a) seg"
  unfolding spans_def by (metis UnI1 rmatch.simps(6) set_append)

lemma checks_spans: "checks ic r seg \<Longrightarrow> spans ic r seg"
proof (induction r arbitrary: seg)
  case Eps
  then have "seg = []" by simp
  then show ?case unfolding spans_def by simp
next
  case (Lit c)
  then obtain x where "seg = [x]" "lit_match ic c x"
    by (cases seg; cases "tl seg") auto
  then show ?case using spans_Lit by simp
next
  case (Cls items)
  then obtain x where "seg = [x]" "in_set ic items x"
    by (cases seg; cases "tl seg") auto
  then show ?case using spans_Cls by simp
next
  case (Seq a b)
  from Seq.prems obtain k where "checks ic a (take k seg)" "checks ic b (drop k seg)"
    by (cases "width a") (auto simp: list_ex_iff simp del: upt_Suc)
  then have "spans ic a (take k seg)" "spans ic b (drop k seg)"
    using Seq.IH by blast+
  then have "spans ic (Seq a b) (take k seg @ drop k seg)" by (rule spans_Seq)
  then show ?case by simp
next
  case (Alt a b)
  from Alt.prems have "spans ic a seg \<or> spans ic b seg" using Alt.IH by auto
  then show ?case by (rule spans_Alt)
next
  case (Opt a)
  from Opt.prems have "seg = [] \<or> spans ic a seg" using Opt.IH by auto
  then show ?case using opt_empty spans_Opt by blast
next
  case (Rep items least greedy)
  then have "list_all (in_set ic items) seg" "least \<le> length seg" by simp_all
  then show ?case by (rule spans_Rep)
next
  case (Grp a)
  then have "spans ic a seg" by simp
  then show ?case by (rule spans_Grp)
next
  case Eos
  then show ?case by simp
qed

lemma spans_seqs: "list_all2 (spans ic) rs segs \<Longrightarrow> spans ic (seqs rs) (concat segs)"
proof (induction rs arbitrary: segs rule: seqs.induct)
  case 1
  then show ?case by (simp add: spans_def)
next
  case (2 r)
  then show ?case by (auto simp: list_all2_Cons1)
next
  case (3 r v va)
  then obtain seg rest where s: "segs = seg # rest" "spans ic r seg"
     "list_all2 (spans ic) (v # va) rest"
    by (auto simp: list_all2_Cons1)
  then have "spans ic (seqs (v # va)) (concat rest)" using 3 by blast
  with s show ?case using spans_Seq by simp
qed

lemma search_finds: "spans ic r seg \<Longrightarrow> re_search ic r (pre @ seg @ rest) \<noteq> None"
proof (induction pre)
  case Nil
  then obtain g where "(g, rest) \<in> set (rmatch ic r (seg @ rest))" by (auto simp: spans_def)
  then have "rmatch ic r (seg @ rest) \<noteq> []" by auto
  then show ?case by (subst re_search.simps) (simp split: list.splits)
next
  case (Cons x pre)
  then show ?case by (subst re_search.simps) (simp split: list.splits)
qed

lemma found:
  assumes "list_all2 (checks ic) rs segs" and "s = pre @ concat segs @ rest"
  shows "re_search ic (seqs rs) s \<noteq> None"
proof -
  have "list_all2 (spans ic) rs segs"
    using assms(1) checks_spans by (rule list_all2_mono)
  then show ?thesis unfolding assms(2) by (intro search_finds spans_seqs)
qed

lemmas rx_eval = checks.simps width.simps lits.simps seqs.simps alts.simps cps_def lit_match_def
  ci_fold_def lower_cp_def in_set_def in_cls.simps is_alnum_def is_space_def is_decimal_def
  num_def

lemma example_from: "re_search True from_pattern example_query \<noteq> None"
  unfolding from_pattern_def
proof (rule found)
  let ?segs = "[cps ''t'' @ [7915],
      cps '' '',
      cps ''Ngh'' @ [7879] @ cps '' An'',
      cps '' '',
      [273] @ [7871] @ cps ''n'']"
  show "example_query =
      (cps ''Ch'' @ [7903] @ cps '' 1 t'' @ [7845] @ cps ''n '') @ concat ?segs @
      (cps '' Thanh H'' @ [243] @ cps ''a, 156km, k'' @ [237] @ cps ''ch th'' @
        [432] @ [7899] @ cps ''c 200x300x400, lo'' @ [7841] @ cps ''i xe: T'' @
        [7843] @ cps ''i, h'' @ [7879] @ cps '' s'' @ [7889] @ cps '' '' @ [273] @
        [7873] @ cps '' xu'' @ [7845] @ cps ''t: 1.5'')"
    by (simp add: example_query_def cps_def)
qed (simp add: rx_eval)

lemma example_to: "re_search True to_pattern example_query \<noteq> None"
  unfolding to_pattern_def
proof (rule found)
  let ?segs = "[[273] @ [7871] @ cps ''n'',
      cps '' '',
      cps ''Thanh H'' @ [243] @ cps ''a'',
      cps '','']"
  show "example_query =
      (cps ''Ch'' @ [7903] @ cps '' 1 t'' @ [7845] @ cps ''n t'' @ [7915] @
        cps '' Ngh'' @ [7879] @ cps '' An '') @ concat ?segs @
      (cps '' 156km, k'' @ [237] @ cps ''ch th'' @ [432] @ [7899] @
        cps ''c 200x300x400, lo'' @ [7841] @ cps ''i xe: T'' @ [7843] @ cps ''i, h'' @
        [7879] @ cps '' s'' @ [7889] @ cps '' '' @ [273] @ [7873] @ cps '' xu'' @
        [7845] @ cps ''t: 1.5'')"
    by (simp add: example_query_def cps_def)
qed (simp add: rx_eval)

lemma example_weight: "re_search False weight_pattern (py_lower example_query) \<noteq> None"
  unfolding weight_pattern_def
proof (rule found)
  let ?segs = "[cps ''1'',
      cps '' '',
      cps ''t'' @ [7845] @ cps ''n'']"
  show "py_lower example_query =
      (cps ''ch'' @ [7903] @ cps '' '') @ concat ?segs @
      (cps '' t'' @ [7915] @ cps '' ngh'' @ [7879] @ cps '' an '' @ [273] @ [7871] @
        cps ''n thanh h'' @ [243] @ cps ''a, 156km, k'' @ [237] @ cps ''ch th'' @
        [432] @ [7899] @ cps ''c 200x300x400, lo'' @ [7841] @ cps ''i xe: t'' @
        [7843] @ cps ''i, h'' @ [7879] @ cps '' s'' @ [7889] @ cps '' '' @ [273] @
        [7873] @ cps '' xu'' @ [7845] @ cps ''t: 1.5'')"
    by (simp add: example_query_def cps_def py_lower_def lower_cp_def)
qed (simp add: rx_eval)

lemma example_dim: "re_search True dim_pattern example_query \<noteq> None"
  unfolding dim_pattern_def
proof (rule found)
  let ?segs = "[cps ''k'' @ [237] @ cps ''ch th'' @ [432] @ [7899] @ cps ''c'',
      cps '' '',
      [],
      [],
      cps ''200'',
      [],
      cps ''x'',
      [],
      cps ''300'',
      [],
      cps ''x'',
      [],
      cps ''400'',
      [],
      []]"
  show "example_query =
      (cps ''Ch'' @ [7903] @ cps '' 1 t'' @ [7845] @ cps ''n t'' @ [7915] @
        cps '' Ngh'' @ [7879] @ cps '' An '' @ [273] @ [7871] @ cps ''n Thanh H'' @
        [243] @ cps ''a, 156km, '') @ concat ?segs @
      (cps '', lo'' @ [7841] @ cps ''i xe: T'' @ [7843] @ cps ''i, h'' @ [7879] @
        cps '' s'' @ [7889] @ cps '' '' @ [273] @ [7873] @ cps '' xu'' @ [7845] @
        cps ''t: 1.5'')"
    by (simp add: example_query_def cps_def)
qed (simp add: rx_eval)

lemma example_distance: "re_search False distance_pattern (py_lower example_query) \<noteq> None"
  unfolding distance_pattern_def
proof (rule found)
  let ?segs = "[cps ''156'',
      [],
      cps ''km'']"
  show "py_lower example_query =
      (cps ''ch'' @ [7903] @ cps '' 1 t'' @ [7845] @ cps ''n t'' @ [7915] @
        cps '' ngh'' @ [7879] @ cps '' an '' @ [273] @ [7871] @ cps ''n thanh h'' @
        [243] @ cps ''a, '') @ concat ?segs @
      (cps '', k'' @ [237] @ cps ''ch th'' @ [432] @ [7899] @
        cps ''c 200x300x400, lo'' @ [7841] @ cps ''i xe: t'' @ [7843] @ cps ''i, h'' @
        [7879] @ cps '' s'' @ [7889] @ cps '' '' @ [273] @ [7873] @ cps '' xu'' @
        [7845] @ cps ''t: 1.5'')"
    by (simp add: example_query_def cps_def py_lower_def lower_cp_def)
qed (simp add: rx_eval)

lemma example_vehicle: "re_search True vehicle_pattern example_query \<noteq> None"
  unfolding vehicle_pattern_def
proof (rule found)
  let ?segs = "[cps ''lo'' @ [7841] @ cps ''i xe'',
      [],
      cps '':'',
      cps '' '',
      cps ''T'' @ [7843] @ cps ''i'',
      cps '','']"
  show "example_query =
      (cps ''Ch'' @ [7903] @ cps '' 1 t'' @ [7845] @ cps ''n t'' @ [7915] @
        cps '' Ngh'' @ [7879] @ cps '' An '' @ [273] @ [7871] @ cps ''n Thanh H'' @
        [243] @ cps ''a, 156km, k'' @ [237] @ cps ''ch th'' @ [432] @ [7899] @
        cps ''c 200x300x400, '') @ concat ?segs @
      (cps '' h'' @ [7879] @ cps '' s'' @ [7889] @ cps '' '' @ [273] @ [7873] @
        cps '' xu'' @ [7845] @ cps ''t: 1.5'')"
    by (simp add: example_query_def cps_def)
qed (simp add: rx_eval)

lemma example_coef: "re_search True coef_pattern example_query \<noteq> None"
  unfolding coef_pattern_def
proof (rule found)
  let ?segs = "[cps ''h'' @ [7879] @ cps '' s'' @ [7889] @ cps '' '' @ [273] @ [7873] @
        cps '' xu'' @ [7845] @ cps ''t'',
      [],
      cps '':'',
      cps '' '',
      cps ''1.5'']"
  show "example_query =
      (cps ''Ch'' @ [7903] @ cps '' 1 t'' @ [7845] @ cps ''n t'' @ [7915] @
        cps '' Ngh'' @ [7879] @ cps '' An '' @ [273] @ [7871] @ cps ''n Thanh H'' @
        [243] @ cps ''a, 156km, k'' @ [237] @ cps ''ch th'' @ [432] @ [7899] @
        cps ''c 200x300x400, lo'' @ [7841] @ cps ''i xe: T'' @ [7843] @ cps ''i, '') @ concat ?segs @
      ([])"
    by (simp add: example_query_def cps_def)
qed (simp add: rx_eval)

lemma py_round_of_int: "py_round (of_int k) = k"
  by (simp add: py_round_def Let_def)

lemma round2_hundredth: "py_round2 (of_int k / 100) = of_int k / 100"
  by (simp add: py_round2_def py_round_of_int)

lemma bump_hundredth:
  "bump m (of_int w / 100) (of_int k / 100) = of_int (if m \<noteq> None then k + w else k) / 100"
  by (simp add: bump_def add_divide_distrib)

lemma confidence_chain:
  "p_confidence (parse_user_query q) =
     py_round2
      (bump (re_search True coef_pattern q) 0.1
        (bump (re_search True vehicle_pattern q) 0.1
          (bump (re_search True goods_pattern q) 0.1
            (bump (re_search False distance_pattern (py_lower q)) 0.2
              (bump (re_search True dim_pattern q) 0.15
                (bump (re_search True quantity_pattern q) 0.1
                  (bump (re_search False weight_pattern (py_lower q)) 0.2
                    (bump (re_search True delivery_pattern q) 0.1
                      (bump (re_search True to_pattern q) 0.2
                        (bump (re_search True from_pattern q) 0.2 0))))))))))"
  by (simp add: parse_user_query_def Let_def)

lemma confidence_formula:
  "p_confidence (parse_user_query q) =
     inc (re_search True from_pattern q \<noteq> None) 0.2 +
     inc (re_search True to_pattern q \<noteq> None) 0.2 +
     inc (re_search True delivery_pattern q \<noteq> None) 0.1 +
     inc (re_search False weight_pattern (py_lower q) \<noteq> None) 0.2 +
     inc (re_search True quantity_pattern q \<noteq> None) 0.1 +
     inc (re_search True dim_pattern q \<noteq> None) 0.15 +
     inc (re_search False distance_pattern (py_lower q) \<noteq> None) 0.2 +
     inc (re_search True goods_pattern q \<noteq> None) 0.1 +
     inc (re_search True vehicle_pattern q \<noteq> None) 0.1 +
     inc (re_search True coef_pattern q \<noteq> None) 0.1"
proof -
  have w: "(0.2 :: real) = of_int 20 / 100" "(0.1 :: real) = of_int 10 / 100"
    "(0.15 :: real) = of_int 15 / 100" "(0 :: real) = of_int 0 / 100"
    by simp_all
  have i: "inc b (of_int n / 100) = of_int (if b then n else 0) / 100" for b n
    by (simp add: inc_def)
  show ?thesis
    unfolding confidence_chain
    apply (subst w(4))
    apply (simp only: w(1,2,3) bump_hundredth round2_hundredth i)
    apply (simp only: add_divide_distrib[symmetric] of_int_add[symmetric])
    apply (simp only: of_int_eq_iff divide_cancel_right)
    apply (simp split: if_splits)
    done
qed

lemma parsed_fields:
  "p_from_location (parse_user_query q) \<noteq> None \<longleftrightarrow> re_search True from_pattern q \<noteq> None"
  "p_to_location (parse_user_query q) \<noteq> None \<longleftrightarrow> re_search True to_pattern q \<noteq> None"
  "p_delivery_point (parse_user_query q) \<noteq> None \<longleftrightarrow> re_search True delivery_pattern q \<noteq> None"
  "p_weight (parse_user_query q) \<noteq> None \<longleftrightarrow> re_search False weight_pattern (py_lower q) \<noteq> None"
  "p_length (parse_user_query q) \<noteq> None \<longleftrightarrow> re_search True dim_pattern q \<noteq> None"
  "p_distance (parse_user_query q) \<noteq> None \<longleftrightarrow> re_search False distance_pattern (py_lower q) \<noteq> None"
  "p_goods_type (parse_user_query q) \<noteq> None \<longleftrightarrow> re_search True goods_pattern q \<noteq> None"
  "p_vehicle_type (parse_user_query q) \<noteq> None \<longleftrightarrow> re_search True vehicle_pattern q \<noteq> None"
  by (simp_all add: parse_user_query_def Let_def)

lemma inc_bounds: "0 \<le> w \<Longrightarrow> 0 \<le> inc b w \<and> inc b w \<le> w"
  by (simp add: inc_def)

text \<open>
  C4, amended. The confidence of \<open>parse_user_query\<close> is the sum of the increments of
  the matched fields (0.2 for origin, destination, weight and distance, 0.15 for the
  dimensions, 0.1 for delivery point, quantity, goods type, vehicle type and proposed
  coefficient), and lies between 0 and 1.45.
\<close>

theorem confidence_is_sum:
  "p_confidence (parse_user_query q) =
     inc (p_from_location (parse_user_query q) \<noteq> None) 0.2 +
     inc (p_to_location (parse_user_query q) \<noteq> None) 0.2 +
     inc (p_delivery_point (parse_user_query q) \<noteq> None) 0.1 +
     inc (p_weight (parse_user_query q) \<noteq> None) 0.2 +
     inc (re_search True quantity_pattern q \<noteq> None) 0.1 +
     inc (p_length (parse_user_query q) \<noteq> None) 0.15 +
     inc (p_distance (parse_user_query q) \<noteq> None) 0.2 +
     inc (p_goods_type (parse_user_query q) \<noteq> None) 0.1 +
     inc (p_vehicle_type (parse_user_query q) \<noteq> None) 0.1 +
     inc (re_search True coef_pattern q \<noteq> None) 0.1 \<and>
   0 \<le> p_confidence (parse_user_query q) \<and>
   p_confidence (parse_user_query q) \<le> 1.45"
proof -
  have f: "p_confidence (parse_user_query q) =
     inc (p_from_location (parse_user_query q) \<noteq> None) 0.2 +
     inc (p_to_location (parse_user_query q) \<noteq> None) 0.2 +
     inc (p_delivery_point (parse_user_query q) \<noteq> None) 0.1 +
     inc (p_weight (parse_user_query q) \<noteq> None) 0.2 +
     inc (re_search True quantity_pattern q \<noteq> None) 0.1 +
     inc (p_length (parse_user_query q) \<noteq> None) 0.15 +
     inc (p_distance (parse_user_query q) \<noteq> None) 0.2 +
     inc (p_goods_type (parse_user_query q) \<noteq> None) 0.1 +
     inc (p_vehicle_type (parse_user_query q) \<noteq> None) 0.1 +
     inc (re_search True coef_pattern q \<noteq> None) 0.1"
    unfolding parsed_fields by (rule confidence_formula)
  have b: "0 \<le> inc x 0.2 \<and> inc x 0.2 \<le> 0.2" "0 \<le> inc x 0.1 \<and> inc x 0.1 \<le> 0.1"
    "0 \<le> inc x 0.15 \<and> inc x 0.15 \<le> 0.15" for x
    by (simp_all add: inc_def)
  have "0 \<le> p_confidence (parse_user_query q)"
    unfolding f using b by (intro add_nonneg_nonneg) simp_all
  moreover have "p_confidence (parse_user_query q) \<le> 0.2 + 0.2 + 0.1 + 0.2 + 0.1 + 0.15 + 0.2 + 0.1 + 0.1 + 0.1"
    unfolding f using b by (intro add_mono) simp_all
  ultimately show ?thesis using f by simp
qed

text \<open>
  C4, as stated, fails: on the example request seven fields match and the confidence is
  at least 1.15, above 1.
\<close>

theorem confidence_above_one_counterexample:
  "1.15 \<le> p_confidence (parse_user_query example_query) \<and>
   \<not> p_confidence (parse_user_query example_query) \<le> 1"
proof -
  have "0.2 + 0.2 + 0 + 0.2 + 0 + 0.15 + 0.2 + 0 + 0.1 + 0.1
        \<le> p_confidence (parse_user_query example_query)"
    unfolding confidence_formula
    using example_from example_to example_weight example_dim example_distance example_vehicle
      example_coef
    by (intro add_mono) (simp_all add: inc_def)
  then show ?thesis by simp
qed

subsection \<open>Failures of calculate_shipping_rate on Python's numbers\<close>

lemma overflow_bound_gt: "overflow_bound > 1"
  by (simp add: overflow_bound_def)

lemma to_fl_Inl: "to_fl n = Inl e \<Longrightarrow> e = OverflowError"
  by (auto simp: to_fl_def split: number.splits if_splits)

lemma float_num_Inl:
  "float_num P v = Inl e \<Longrightarrow> e = ValueError \<or> e = TypeError \<or> e = OverflowError"
  by (auto simp: float_num_def split: pv.splits option.splits dest: to_fl_Inl)

lemma int_num_Inl:
  "int_num P v = Inl e \<Longrightarrow> e = ValueError \<or> e = TypeError \<or> e = OverflowError"
  by (auto simp: int_num_def split: pv.splits option.splits number.splits fl.splits)


lemma round_num_Inl: "round_num n = Inl e \<Longrightarrow> e = OverflowError \<or> e = ValueError"
  by (auto simp: round_num_def split: number.splits fl.splits)









lemma num_mul_shape:
  assumes "num_mul a (PyInt q) = Inr r" and "a = PyInt 0 \<or> (\<exists>x. a = PyFloat x)"
  shows "r = PyInt 0 \<or> (\<exists>y. r = PyFloat y)"
  using assms by (auto simp: num_mul_def split: sum.splits)

lemma volume_shape:
  "calculate_weight_from_dimensions_num P l w h f = Inr v \<Longrightarrow> v = PyInt 0 \<or> (\<exists>x. v = PyFloat x)"
  by (auto simp: calculate_weight_from_dimensions_num_def swallow_def split: if_splits sum.splits)

lemma weight_shape:
  "(if a \<noteq> VNone
    then (case float_num P a of Inl e \<Rightarrow> Inl e | Inr x \<Rightarrow> Inr (PyFloat x))
    else Inr (PyInt 0)) = Inr w \<Longrightarrow> w = PyInt 0 \<or> (\<exists>x. w = PyFloat x)"
  by (auto split: if_splits sum.splits)

lemma clamp_shape:
  assumes "vt = PyInt 0 \<or> (\<exists>y. vt = PyFloat y)" and "awt = PyInt 0 \<or> (\<exists>y. awt = PyFloat y)"
  shows "(let k = (if num_lt (PyInt 0) vt then (if num_lt awt vt then vt else awt) else awt)
          in if num_le k (PyInt 0) then PyInt 1 else k) = PyInt 1 \<or>
         (\<exists>x. (let k = (if num_lt (PyInt 0) vt then (if num_lt awt vt then vt else awt) else awt)
          in if num_le k (PyInt 0) then PyInt 1 else k) = PyFloat x)"
  using assms by (auto simp: Let_def num_le_def num_lt_def as_fl_def)

lemma weigh_num_cw:
  assumes "weigh_num P cfg c = Inr (d, p, cw, vt, awt)"
  shows "cw = PyInt 1 \<or> (\<exists>x. cw = PyFloat x)"
proof -
  from assms obtain weight qty vol_weight f where
      w: "(if actual_weight_kg_v c \<noteq> VNone
           then (case float_num P (actual_weight_kg_v c) of Inl e \<Rightarrow> Inl e | Inr x \<Rightarrow> Inr (PyFloat x))
           else Inr (PyInt 0)) = Inr weight"
      and v: "calculate_weight_from_dimensions_num P
             (vol_length_cm_v c) (vol_width_cm_v c) (vol_height_cm_v c) f = Inr vol_weight"
      and m: "num_mul vol_weight (PyInt qty) = Inr vt" "num_mul weight (PyInt qty) = Inr awt"
      and cw: "cw = (let k = (if num_lt (PyInt 0) vt then (if num_lt awt vt then vt else awt) else awt)
                     in if num_le k (PyInt 0) then PyInt 1 else k)"
    unfolding weigh_num_def by (simp add: Let_def split: sum.splits)
  from num_mul_shape[OF m(1) volume_shape[OF v]] num_mul_shape[OF m(2) weight_shape[OF w]]
  have "vt = PyInt 0 \<or> (\<exists>y. vt = PyFloat y)" "awt = PyInt 0 \<or> (\<exists>y. awt = PyFloat y)" by blast+
  from clamp_shape[OF this] show ?thesis unfolding cw .
qed

lemma weigh_num_to_fl:
  assumes "weigh_num P cfg c = Inr (d, p, cw, vt, awt)"
  shows "\<exists>x. to_fl cw = Inr x"
  using weigh_num_cw[OF assms] overflow_bound_gt by (auto simp: to_fl_def)

lemma first_fields_simps:
  "first_fields 0 = [False, False, False, False, False, False, False, False, False, False]"
  "first_fields 3 = [True, True, True, False, False, False, False, False, False, False]"
  "first_fields 5 = [True, True, True, True, True, False, False, False, False, False]"
  "first_fields 8 = [True, True, True, True, True, True, True, True, False, False]"
  "first_fields 10 = [True, True, True, True, True, True, True, True, True, True]"
  by (simp_all add: first_fields_def eval_nat_numeral)

lemma stored_caught_num: "stored (caught_num e res) = stored res"
  by (simp add: stored_def caught_num_def)

lemma error_caught_num: "error_n (caught_num e res) = Some (describe e)"
  by (simp add: caught_num_def)

lemma round_money_num_cases:
  assumes "error_n res = None" and "stored res = first_fields 10"
  shows "stored (round_money_num res a b c d f) = first_fields 10 \<and>
         (error_n (round_money_num res a b c d f) = None \<or>
          (\<exists>e. error_n (round_money_num res a b c d f) = Some (describe e) \<and>
               (e = OverflowError \<or> e = ValueError)))"
proof -
  have s: "stored (round_money_num res a b c d f) = first_fields 10"
    using assms(2)
    by (simp add: round_money_num_def Let_def stored_def first_fields_simps caught_num_def
             split: sum.splits)
  have "error_n (round_money_num res a b c d f) = None \<or>
          (\<exists>e. error_n (round_money_num res a b c d f) = Some (describe e) \<and>
               (e = OverflowError \<or> e = ValueError))"
    using assms(1)
    by (auto simp: round_money_num_def Let_def caught_num_def split: sum.splits
             dest: round_num_Inl)
  with s show ?thesis by simp
qed

lemma calc_num_cases:
  fixes P cfg c
  defines "r \<equiv> calculate_shipping_rate_num P cfg c"
  obtains
    (conversion) e where "weigh_num P cfg c = Inl e"
      "error_n r = Some (describe e)" "stored r = first_fields 0"
  | (coefficient) e d p cw vt awt where "weigh_num P cfg c = Inr (d, p, cw, vt, awt)"
      "resolve_coefficients_num cfg c d p = Inl e"
      "error_n r = Some (describe e)" "stored r = first_fields 3"
  | (fee) e where "delivery_fee_num cfg (delivery_point_v c) = Inl e"
      "error_n r = Some (describe e)" "stored r = first_fields 5"
  | (rate) e where "config_constant cfg ''full_vehicle_rate'' = Inl e"
      "error_n r = Some (describe e)" "stored r = first_fields 8"
  | (rounding) e where "e = OverflowError \<or> e = ValueError"
      "error_n r = Some (describe e)" "stored r = first_fields 10"
  | (ok) "error_n r = None" "stored r = first_fields 10"
proof (cases "weigh_num P cfg c")
  case (Inl e)
  then show ?thesis using conversion[of e]
    by (simp add: r_def calculate_shipping_rate_num_def Let_def caught_num_def stored_def
          initial_results_num_def first_fields_simps)
next
  case w: (Inr t)
  obtain d p cw vt awt where t: "t = (d, p, cw, vt, awt)" by (cases t) auto
  from weigh_num_to_fl[OF w[unfolded t]] obtain x where x: "to_fl cw = Inr x" by blast
  show ?thesis
  proof (cases "resolve_coefficients_num cfg c d p")
    case (Inl e)
    then show ?thesis using coefficient[of d p cw vt awt e] w t
      by (simp add: r_def calculate_shipping_rate_num_def Let_def caught_num_def stored_def
          initial_results_num_def first_fields_simps)
  next
    case k: (Inr k)
    show ?thesis
    proof (cases "delivery_fee_num cfg (delivery_point_v c)")
      case (Inl e)
      then show ?thesis using fee[of e] w t k x
        by (simp add: r_def calculate_shipping_rate_num_def Let_def caught_num_def stored_def
            initial_results_num_def first_fields_simps)
    next
      case f: (Inr fe)
      show ?thesis
      proof (cases "config_constant cfg ''full_vehicle_rate''")
        case (Inl e)
        then show ?thesis using rate[of e] w t k x f
          by (simp add: r_def calculate_shipping_rate_num_def Let_def caught_num_def stored_def
              initial_results_num_def first_fields_simps)
      next
        case (Inr fvr)
        obtain res a b cc dd ff where
          r: "r = round_money_num res a b cc dd ff" and
          res: "error_n res = None" "stored res = first_fields 10"
          using w t k x f Inr
          by (simp add: r_def calculate_shipping_rate_num_def Let_def stored_def
              initial_results_num_def first_fields_simps)
        from round_money_num_cases[OF res, of a b cc dd ff] show ?thesis
          using rounding ok unfolding r by blast
      qed
    qed
  qed
qed

lemma band_lookup_num_sorted:
  assumes "sorted (map fst table)" "table \<noteq> []"
  shows "band_lookup_num table v = Inr (band_loop_num v table (snd (hd table)))"
proof -
  have s: "sort_key fst table = table" using assms(1) by (simp add: sort_key_id_if_sorted)
  obtain t0 c0 rest where t: "table = (t0, c0) # rest" using assms(2) by (cases table) auto
  show ?thesis unfolding band_lookup_num_def s by (simp add: t)
qed

lemma default_getters_num:
  "get_km_coefficient_num DEFAULT_CONFIG d =
     band_lookup_num (the (km_coefficients DEFAULT_CONFIG)) (PyFloat d)"
  "get_size_coefficient_num DEFAULT_CONFIG (VNum (PyInt 0)) =
     band_lookup_num (the (size_coefficients DEFAULT_CONFIG)) (PyInt 0)"
  by (simp_all add: get_km_coefficient_num_def get_size_coefficient_num_def getitem_def
        DEFAULT_CONFIG_def or0_num_def truthy_num_def)

lemma example_resolve_weight:
  "resolve_coefficients_num DEFAULT_CONFIG
      (example_call\<lparr>actual_weight_kg_v := a\<rparr>) (Fin 156) (Fin 1) =
   Inr \<lparr>km_n = 0.45, zone_n = 1, goods_n = 1, vehicle_n = 1, size_n = 1, proposed_n = Fin 1\<rparr>"
  by (simp add: resolve_coefficients_num_def default_getters default_getters_num example_call_def
        example_shipment_def or0_num_def truthy_num_def max_num_def gt_num_def num_lt_def as_fl_def
        band_lookup_num_sorted default_tables_sorted)
     (simp add: DEFAULT_CONFIG_def get_or_one_def cps_def num_le_def as_fl_def)

lemmas weigh_eval = weigh_num_def example_call_def float_num_def int_num_def to_fl_def
  default_constants calculate_weight_from_dimensions_num_def num_mul_def
  fl_of_real_def num_lt_def num_le_def as_fl_def Let_def overflow_bound_def

lemmas resolve_eval = resolve_coefficients_num_def default_getters default_getters_num
  example_call_def example_shipment_def or0_num_def truthy_num_def max_num_def gt_num_def
  num_lt_def as_fl_def band_lookup_num_sorted default_tables_sorted


lemma describe_cases_num:
  "describe ValueError = InputValueError ValueError"
  "describe TypeError = InputValueError TypeError"
  "describe (KeyError k) = ConfigMissingKey k"
  "describe IndexError = SystemFailure IndexError"
  "describe AttributeError = SystemFailure AttributeError"
  "describe OverflowError = SystemFailure OverflowError"
  by (simp_all add: describe_def)

lemma overflow_run:
  "calculate_shipping_rate_num no_parse_num DEFAULT_CONFIG overflowing_call =
   \<lparr> error_n = Some (SystemFailure OverflowError),
     chargeable_weight_n = Some (PyFloat (Fin (10 ^ 306))),
     volumetric_weight_n = Some (PyInt 0),
     actual_weight_n = Some (PyFloat (Fin (10 ^ 306))),
     coefficients_n = Some \<lparr>km_n = 0.45, zone_n = 1, goods_n = 1, vehicle_n = 1, size_n = 1,
                              proposed_n = Fin 1\<rparr>,
     base_freight_n = Some (PyFloat (Infinity True)),
     delivery_fee_n = Some (PyInt 0),
     total_cost_n = Some (PyFloat (Infinity True)),
     shared_vehicle_cost_n = Some (PyFloat (Infinity True)),
     full_vehicle_cost_n = Some (PyFloat (Infinity True)),
     customer_price_n = Some (PyFloat (Infinity True)) \<rparr>"
proof -
  let ?c = "example_call\<lparr>actual_weight_kg_v := VNum (PyFloat (Fin (10 ^ 306)))\<rparr>"
  have w: "weigh_num no_parse_num DEFAULT_CONFIG ?c
      = Inr (Fin 156, Fin 1, PyFloat (Fin (10 ^ 306)), PyInt 0, PyFloat (Fin (10 ^ 306)))"
    by (simp add: weigh_eval)
  have c: "resolve_coefficients_num DEFAULT_CONFIG ?c (Fin 156) (Fin 1) =
      Inr \<lparr>km_n = 0.45, zone_n = 1, goods_n = 1, vehicle_n = 1, size_n = 1, proposed_n = Fin 1\<rparr>"
    by (simp add: resolve_eval)
       (simp add: DEFAULT_CONFIG_def get_or_one_def cps_def num_le_def as_fl_def)
  have f: "delivery_fee_num DEFAULT_CONFIG (delivery_point_v ?c) = Inr (PyInt 0)"
    by (simp add: delivery_fee_num_def truthy_num_def example_call_def)
  show ?thesis
    unfolding overflowing_call_def
    using w c f
    by (simp add: calculate_shipping_rate_num_def Let_def caught_num_def describe_def to_fl_def
          default_constants times_all_def fl_of_real_def overflow_bound_def get_base_rate_num_def
          num_lt_def num_le_def as_fl_def round_money_num_def round_num_def
          initial_results_num_def)
qed

lemma example_result_num:
  "calculate_shipping_rate_num no_parse_num DEFAULT_CONFIG example_call =
   \<lparr> error_n = None,
     chargeable_weight_n = Some (PyFloat (Fin 1000)),
     volumetric_weight_n = Some (PyInt 0),
     actual_weight_n = Some (PyFloat (Fin 1000)),
     coefficients_n = Some \<lparr>km_n = 0.45, zone_n = 1, goods_n = 1, vehicle_n = 1, size_n = 1,
                              proposed_n = Fin 1\<rparr>,
     base_freight_n = Some (PyInt 1408851),
     delivery_fee_n = Some (PyInt 0),
     total_cost_n = Some (PyInt 1408851),
     shared_vehicle_cost_n = Some (PyInt 1267966),
     full_vehicle_cost_n = Some (PyInt 1834222),
     customer_price_n = Some (PyInt 1408851) \<rparr>"
proof -
  have w: "weigh_num no_parse_num DEFAULT_CONFIG example_call
      = Inr (Fin 156, Fin 1, PyFloat (Fin 1000), PyInt 0, PyFloat (Fin 1000))"
    by (simp add: weigh_eval)
  have c: "resolve_coefficients_num DEFAULT_CONFIG example_call (Fin 156) (Fin 1) =
      Inr \<lparr>km_n = 0.45, zone_n = 1, goods_n = 1, vehicle_n = 1, size_n = 1, proposed_n = Fin 1\<rparr>"
    using example_resolve_weight[of "actual_weight_kg_v example_call"] by simp
  have f: "delivery_fee_num DEFAULT_CONFIG (delivery_point_v example_call) = Inr (PyInt 0)"
    by (simp add: delivery_fee_num_def truthy_num_def example_call_def)
  show ?thesis
    using w c f
    by (simp add: calculate_shipping_rate_num_def Let_def to_fl_def
          default_constants times_all_def fl_of_real_def overflow_bound_def get_base_rate_num_def
          num_lt_def num_le_def as_fl_def round_money_num_def round_num_def py_round_def
          initial_results_num_def)
qed

text \<open>On the example the two models of \<open>calculate_shipping_rate\<close> return the same amounts.\<close>

lemma example_models_agree:
  "error_n (calculate_shipping_rate_num no_parse_num DEFAULT_CONFIG example_call) =
     error (calculate_shipping_rate no_parse DEFAULT_CONFIG (as_request example_shipment)) \<and>
   map_option as_fl (base_freight_n (calculate_shipping_rate_num no_parse_num DEFAULT_CONFIG example_call)) =
     map_option Fin (base_freight (calculate_shipping_rate no_parse DEFAULT_CONFIG (as_request example_shipment))) \<and>
   map_option as_fl (shared_vehicle_cost_n (calculate_shipping_rate_num no_parse_num DEFAULT_CONFIG example_call)) =
     map_option Fin (shared_vehicle_cost (calculate_shipping_rate no_parse DEFAULT_CONFIG (as_request example_shipment))) \<and>
   map_option as_fl (full_vehicle_cost_n (calculate_shipping_rate_num no_parse_num DEFAULT_CONFIG example_call)) =
     map_option Fin (full_vehicle_cost (calculate_shipping_rate no_parse DEFAULT_CONFIG (as_request example_shipment))) \<and>
   map_option as_fl (customer_price_n (calculate_shipping_rate_num no_parse_num DEFAULT_CONFIG example_call)) =
     map_option Fin (customer_price (calculate_shipping_rate no_parse DEFAULT_CONFIG (as_request example_shipment)))"
  by (simp add: example_result_num example_result as_fl_def)




text \<open>
  C6, as stated, fails: a dimension that is a non-numeric string fails in \<open>max\<close>, after
  the weights have been stored, and the result carries them beside the error.
\<close>

theorem partial_breakdown_counterexample:
  "error_n (calculate_shipping_rate_num no_parse_num DEFAULT_CONFIG
      (example_call\<lparr>vol_length_cm_v := VStr (cps ''abc'')\<rparr>))
     = Some (InputValueError TypeError) \<and>
   chargeable_weight_n (calculate_shipping_rate_num no_parse_num DEFAULT_CONFIG
      (example_call\<lparr>vol_length_cm_v := VStr (cps ''abc'')\<rparr>)) = Some (PyFloat (Fin 1000)) \<and>
   actual_weight_n (calculate_shipping_rate_num no_parse_num DEFAULT_CONFIG
      (example_call\<lparr>vol_length_cm_v := VStr (cps ''abc'')\<rparr>)) = Some (PyFloat (Fin 1000))"
proof -
  let ?c = "example_call\<lparr>vol_length_cm_v := VStr (cps ''abc'')\<rparr>"
  have w: "weigh_num no_parse_num DEFAULT_CONFIG ?c
      = Inr (Fin 156, Fin 1, PyFloat (Fin 1000), PyInt 0, PyFloat (Fin 1000))"
    by (simp add: weigh_eval)
  have c: "resolve_coefficients_num DEFAULT_CONFIG ?c (Fin 156) (Fin 1) = Inl TypeError"
    by (simp add: resolve_eval cps_def)
  show ?thesis
    using w c
    by (simp add: calculate_shipping_rate_num_def Let_def caught_num_def describe_def
          initial_results_num_def)
qed

text \<open>
  C6, amended. On a failure the result carries the error descriptor and the keys stored
  before the failing statement: none when a conversion or the lookup of
  \<open>vol_weight_factor\<close> fails; the three weights when a coefficient fails; also the
  coefficients and the base freight when the delivery fee fails; also the delivery fee,
  the total and the shared-vehicle cost when \<open>full_vehicle_rate\<close> is missing; all ten
  keys when \<open>round\<close> fails on an amount that is infinite (a system error,
  \<open>OverflowError\<close>) or NaN (an input-value error, \<open>ValueError\<close>).
\<close>

theorem failure_keeps_stored_fields:
  assumes "error_n (calculate_shipping_rate_num P cfg c) \<noteq> None"
  shows
    "(\<exists>e. weigh_num P cfg c = Inl e \<and>
          stored (calculate_shipping_rate_num P cfg c) = first_fields 0) \<or>
     (\<exists>e d p cw vt awt. weigh_num P cfg c = Inr (d, p, cw, vt, awt) \<and>
          resolve_coefficients_num cfg c d p = Inl e \<and>
          stored (calculate_shipping_rate_num P cfg c) = first_fields 3) \<or>
     (\<exists>e. delivery_fee_num cfg (delivery_point_v c) = Inl e \<and>
          stored (calculate_shipping_rate_num P cfg c) = first_fields 5) \<or>
     (\<exists>e. config_constant cfg ''full_vehicle_rate'' = Inl e \<and>
          stored (calculate_shipping_rate_num P cfg c) = first_fields 8) \<or>
     (stored (calculate_shipping_rate_num P cfg c) = first_fields 10 \<and>
      (error_n (calculate_shipping_rate_num P cfg c) = Some (SystemFailure OverflowError) \<or>
       error_n (calculate_shipping_rate_num P cfg c) = Some (InputValueError ValueError)))"
proof (cases rule: calc_num_cases[of P cfg c])
  case (conversion e)
  then show ?thesis by blast
next
  case (coefficient e d p cw vt awt)
  then show ?thesis by blast
next
  case (fee e)
  then show ?thesis by blast
next
  case (rate e)
  then show ?thesis by blast
next
  case (rounding e)
  from rounding(1,2)
  have "error_n (calculate_shipping_rate_num P cfg c) = Some (SystemFailure OverflowError) \<or>
        error_n (calculate_shipping_rate_num P cfg c) = Some (InputValueError ValueError)"
    by (auto simp: describe_cases_num)
  with rounding(3) show ?thesis by blast
next
  case ok
  with assms show ?thesis by simp
qed

theorem failure_keeps_stored_fields_witness:
  "error_n (calculate_shipping_rate_num no_parse_num DEFAULT_CONFIG overflowing_call)
     = Some (SystemFailure OverflowError) \<and>
   stored (calculate_shipping_rate_num no_parse_num DEFAULT_CONFIG overflowing_call)
     = first_fields 10 \<and>
   full_vehicle_cost_n (calculate_shipping_rate_num no_parse_num DEFAULT_CONFIG overflowing_call)
     = Some (PyFloat (Infinity True)) \<and>
   customer_price_n (calculate_shipping_rate_num no_parse_num DEFAULT_CONFIG overflowing_call)
     = Some (PyFloat (Infinity True))"
proof -
  have h: "error_n (calculate_shipping_rate_num no_parse_num DEFAULT_CONFIG overflowing_call)
      \<noteq> None"
    by (simp add: overflow_run)
  have w: "weigh_num no_parse_num DEFAULT_CONFIG overflowing_call
      = Inr (Fin 156, Fin 1, PyFloat (Fin (10 ^ 306)), PyInt 0, PyFloat (Fin (10 ^ 306)))"
    unfolding overflowing_call_def by (simp add: weigh_eval)
  have c: "resolve_coefficients_num DEFAULT_CONFIG overflowing_call (Fin 156) (Fin 1) =
      Inr \<lparr>km_n = 0.45, zone_n = 1, goods_n = 1, vehicle_n = 1, size_n = 1, proposed_n = Fin 1\<rparr>"
    unfolding overflowing_call_def by (rule example_resolve_weight)
  have f: "delivery_fee_num DEFAULT_CONFIG (delivery_point_v overflowing_call) = Inr (PyInt 0)"
    by (simp add: delivery_fee_num_def truthy_num_def example_call_def overflowing_call_def)
  have r: "config_constant DEFAULT_CONFIG ''full_vehicle_rate'' = Inr 4076.05"
    by (simp add: default_constants)
  from failure_keeps_stored_fields[OF h] w c f r
  have "stored (calculate_shipping_rate_num no_parse_num DEFAULT_CONFIG overflowing_call)
     = first_fields 10"
    by simp
  then show ?thesis by (simp add: overflow_run)
qed

subsection \<open>The handler of app.py\<close>

lemma no_calculate_cost: "getattr_calc ''calculate_cost'' = Inl AttributeError"
  by (simp add: getattr_calc_def ShippingCalculator_attributes_def)

lemma float_json_Inl:
  "float_json P v = Inl e \<Longrightarrow> e = ValueError \<or> e = TypeError \<or> e = OverflowError"
  by (auto simp: float_json_def split: json.splits dest: float_num_Inl)

lemma int_json_Inl:
  "int_json P v = Inl e \<Longrightarrow> e = ValueError \<or> e = TypeError \<or> e = OverflowError"
  by (auto simp: int_json_def split: json.splits dest: int_num_Inl)

text \<open>
  C9, as stated, fails in one part: a request whose \<open>km\<close> is \<open>null\<close> raises \<open>TypeError\<close> in
  \<open>float\<close>, before \<open>calc.calculate_cost\<close> is evaluated.
\<close>

theorem baogia_conversion_counterexample:
  "baogia no_parse_num (\<lambda>m args. Inr JNull) (Decoded (JObject [(cps ''km'', JNull)]))
     = Raises TypeError"
  by (simp add: baogia_def dict_get_def float_json_def float_num_def Let_def)

text \<open>
  C9, amended. The handler never returns a quote. When the body is an object whose
  \<open>km\<close>, \<open>sokien\<close> and \<open>trongluong\<close> convert, it raises \<open>AttributeError\<close>, since
  \<open>calculate_cost\<close> is not an attribute of \<open>ShippingCalculator\<close>; otherwise, on an
  object, it raises the \<open>ValueError\<close>, \<open>TypeError\<close> or \<open>OverflowError\<close> of the failing
  conversion. A body that is not an object raises \<open>AttributeError\<close> in \<open>data.get\<close>, and a
  request that the framework rejects does not reach the conversions.
\<close>

theorem baogia_never_returns:
  "(\<forall>q. baogia P invoke body \<noteq> Returns q) \<and>
   (\<forall>data km sokien trongluong.
      body = Decoded (JObject data) \<and>
      float_json P (dict_get data ''km'' (JNum (PyInt 0))) = Inr km \<and>
      int_json P (dict_get data ''sokien'' (JNum (PyInt 1))) = Inr sokien \<and>
      float_json P (dict_get data ''trongluong'' (JNum (PyInt 0))) = Inr trongluong \<longrightarrow>
      baogia P invoke body = Raises AttributeError) \<and>
   (\<forall>data. body = Decoded (JObject data) \<and> baogia P invoke body \<noteq> Raises AttributeError \<longrightarrow>
      (\<exists>e. baogia P invoke body = Raises e \<and>
           (e = ValueError \<or> e = TypeError \<or> e = OverflowError) \<and>
           (float_json P (dict_get data ''km'' (JNum (PyInt 0))) = Inl e \<or>
            int_json P (dict_get data ''sokien'' (JNum (PyInt 1))) = Inl e \<or>
            float_json P (dict_get data ''trongluong'' (JNum (PyInt 0))) = Inl e))) \<and>
   (\<forall>v. body = Decoded v \<and> (\<forall>data. v \<noteq> JObject data) \<longrightarrow>
      baogia P invoke body = Raises AttributeError) \<and>
   (body = Rejected \<longrightarrow> baogia P invoke body = Aborts)"
proof (intro conjI allI impI)
  fix q show "baogia P invoke body \<noteq> Returns q"
    by (auto simp: baogia_def no_calculate_cost Let_def split: json_body.splits json.splits
          sum.splits)
next
  fix data km sokien trongluong
  assume "body = Decoded (JObject data) \<and>
      float_json P (dict_get data ''km'' (JNum (PyInt 0))) = Inr km \<and>
      int_json P (dict_get data ''sokien'' (JNum (PyInt 1))) = Inr sokien \<and>
      float_json P (dict_get data ''trongluong'' (JNum (PyInt 0))) = Inr trongluong"
  then show "baogia P invoke body = Raises AttributeError"
    by (simp add: baogia_def no_calculate_cost Let_def)
next
  fix data
  assume a: "body = Decoded (JObject data) \<and> baogia P invoke body \<noteq> Raises AttributeError"
  then show "\<exists>e. baogia P invoke body = Raises e \<and>
           (e = ValueError \<or> e = TypeError \<or> e = OverflowError) \<and>
           (float_json P (dict_get data ''km'' (JNum (PyInt 0))) = Inl e \<or>
            int_json P (dict_get data ''sokien'' (JNum (PyInt 1))) = Inl e \<or>
            float_json P (dict_get data ''trongluong'' (JNum (PyInt 0))) = Inl e)"
    using float_json_Inl int_json_Inl
    by (auto simp: baogia_def no_calculate_cost Let_def split: sum.splits)
next
  fix v
  assume "body = Decoded v \<and> (\<forall>data. v \<noteq> JObject data)"
  then show "baogia P invoke body = Raises AttributeError"
    by (cases v) (simp_all add: baogia_def)
next
  assume "body = Rejected"
  then show "baogia P invoke body = Aborts" by (simp add: baogia_def)
qed

theorem baogia_never_returns_witness:
  "baogia no_parse_num (\<lambda>m args. Inr JNull)
      (Decoded (JObject [(cps ''km'', JNum (PyInt 156)), (cps ''trongluong'', JNum (PyInt 1000))]))
     = Raises AttributeError \<and>
   baogia no_parse_num (\<lambda>m args. Inr JNull)
      (Decoded (JObject [(cps ''sokien'', JNum (PyFloat (Infinity True)))]))
     = Raises OverflowError"
proof -
  let ?d = "[(cps ''km'', JNum (PyInt 156)), (cps ''trongluong'', JNum (PyInt 1000))]"
  let ?o = "[(cps ''sokien'', JNum (PyFloat (Infinity True)))]"
  have "float_json no_parse_num (dict_get ?d ''km'' (JNum (PyInt 0))) = Inr (Fin 156)"
    and "int_json no_parse_num (dict_get ?d ''sokien'' (JNum (PyInt 1))) = Inr 1"
    and "float_json no_parse_num (dict_get ?d ''trongluong'' (JNum (PyInt 0))) = Inr (Fin 1000)"
    by (simp_all add: dict_get_def float_json_def int_json_def float_num_def int_num_def
          to_fl_def overflow_bound_def cps_def)
  with baogia_never_returns[of no_parse_num "\<lambda>m args. Inr JNull" "Decoded (JObject ?d)"]
  have 1: "baogia no_parse_num (\<lambda>m args. Inr JNull) (Decoded (JObject ?d)) = Raises AttributeError"
    by blast
  have k: "float_json no_parse_num (dict_get ?o ''km'' (JNum (PyInt 0))) = Inr (Fin 0)"
    and s: "int_json no_parse_num (dict_get ?o ''sokien'' (JNum (PyInt 1))) = Inl OverflowError"
    by (simp_all add: dict_get_def float_json_def int_json_def float_num_def int_num_def
          to_fl_def overflow_bound_def cps_def)
  have 2: "baogia no_parse_num (\<lambda>m args. Inr JNull) (Decoded (JObject ?o)) = Raises OverflowError"
    using k s by (simp add: baogia_def Let_def)
  from 1 2 show ?thesis by simp
qed

end
